theory Spec2Isabelle
  imports Main
begin

section \<open>Strings of the converter\<close>

text \<open>
  A JavaScript string is modelled as a \<^typ>\<open>string\<close>: the list of its code units,
  each code unit being a \<^typ>\<open>char\<close>. \<open>length\<close> is \<open>.length\<close> and
  \<open>take\<close> is \<open>.substring(0, n)\<close>. \<open>String.prototype.toUpperCase\<close> and
  \<open>toLowerCase\<close> belong to the engine and are parameters of the model (see the
  host below); \<open>ascii_upper\<close> and \<open>ascii_lower\<close> are what they do on strings
  of ASCII code units.
\<close>

definition lower_letters :: string where
  "lower_letters = ''abcdefghijklmnopqrstuvwxyz''"

definition upper_letters :: string where
  "upper_letters = ''ABCDEFGHIJKLMNOPQRSTUVWXYZ''"

definition digit_chars :: string where
  "digit_chars = ''0123456789''"

definition ascii_upper :: "string \<Rightarrow> string" where
  "ascii_upper s =
     map (\<lambda>c. case map_of (zip lower_letters upper_letters) c of
                 Some u \<Rightarrow> u | None \<Rightarrow> c) s"

definition ascii_lower :: "string \<Rightarrow> string" where
  "ascii_lower s =
     map (\<lambda>c. case map_of (zip upper_letters lower_letters) c of
                 Some l \<Rightarrow> l | None \<Rightarrow> c) s"

text \<open>\<open>a || b\<close> on strings that may be absent: the empty string is falsy.\<close>

definition truthy_str :: "string option \<Rightarrow> bool" where
  "truthy_str v = (case v of None \<Rightarrow> False | Some s \<Rightarrow> s \<noteq> [])"

definition str_or :: "string option \<Rightarrow> string \<Rightarrow> string" where
  "str_or v d = (case v of None \<Rightarrow> d | Some s \<Rightarrow> if s = [] then d else s)"

section \<open>sanitizeFileName\<close>

text \<open>
  \<^verbatim>\<open>
  function sanitizeFileName(name, maxLength = 50) {
      let sanitized = name
          .replace(/[^a-zA-Z0-9-_]/g, '_')
          .replace(/_+/g, '_')
          .replace(/^_+|_+$/g, '');
      if (sanitized.length > maxLength) {
          sanitized = sanitized.substring(0, maxLength);
      }
      return sanitized || 'unnamed_chat';
  }
  \<close>
  Each global \<open>replace\<close> is the left-to-right scan the regular expression engine
  performs: at the current position the pattern is tried; a match is replaced and
  the scan goes on behind it, otherwise the code unit is copied.
\<close>

definition name_char :: "char \<Rightarrow> bool" where
  "name_char c = (c \<in> set (lower_letters @ upper_letters @ digit_chars @ ''-_''))"

text \<open>\<open>.replace(/[^a-zA-Z0-9-_]/g, '_')\<close>\<close>

definition replace_invalid :: "string \<Rightarrow> string" where
  "replace_invalid s = map (\<lambda>c. if name_char c then c else CHR ''_'') s"

text \<open>\<open>.replace(/_+/g, '_')\<close>: a greedy run of underscores becomes one underscore.\<close>

function collapse_underscores :: "string \<Rightarrow> string" where
  "collapse_underscores [] = []"
| "collapse_underscores (c # cs) =
     (if c = CHR ''_''
      then CHR ''_'' # collapse_underscores (dropWhile (\<lambda>d. d = CHR ''_'') cs)
      else c # collapse_underscores cs)"
  by pat_completeness auto
termination
  by (relation "measure length") (auto simp: le_imp_less_Suc length_dropWhile_le)

text \<open>
  \<open>.replace(/^_+|_+$/g, '')\<close>: the run of underscores at the start of the string
  and the run at its end are removed.
\<close>

definition trim_underscores :: "string \<Rightarrow> string" where
  "trim_underscores s =
     rev (dropWhile (\<lambda>d. d = CHR ''_'') (rev (dropWhile (\<lambda>d. d = CHR ''_'') s)))"

definition placeholder_name :: string where
  "placeholder_name = ''unnamed_chat''"

text \<open>
  \<open>maxLength\<close> is any integer; \<open>substring(0, m)\<close> with a negative \<open>m\<close> is the
  empty string, which \<open>take (nat m)\<close> gives too.
\<close>

definition sanitizeFileName :: "string \<Rightarrow> int \<Rightarrow> string" where
  "sanitizeFileName name maxLength =
     (let sanitized = trim_underscores (collapse_underscores (replace_invalid name));
          sanitized = (if int (length sanitized) > maxLength
                       then take (nat maxLength) sanitized else sanitized)
      in if sanitized = [] then placeholder_name else sanitized)"

text \<open>The call with the default \<open>maxLength = 50\<close>.\<close>

definition sanitizeFileName_default :: "string \<Rightarrow> string" where
  "sanitizeFileName_default name = sanitizeFileName name 50"

section \<open>The host: \<open>Date\<close>, the clock and \<open>path\<close>\<close>

text \<open>
  \<open>Date\<close>, \<open>Date.now()\<close>, \<open>path.basename\<close> and the case conversions of
  strings belong to the JavaScript engine, not to the repository, so they are
  parameters of the model:
  \<^item> \<open>parseDate\<close> is the string parser of \<open>new Date(s)\<close>: the time value in
    milliseconds since the epoch, or \<open>None\<close> for an Invalid Date;
  \<^item> \<open>localFields\<close> gives \<open>getFullYear()\<close>, \<open>getMonth()\<close> (0 to 11),
    \<open>getDate()\<close>, \<open>getHours()\<close> and \<open>getMinutes()\<close> of a time value in the
    time zone of the process;
  \<^item> \<open>toISOString\<close> is \<open>Date.prototype.toISOString\<close> on a valid time value;
  \<^item> \<open>pathStem\<close> is \<open>path.basename(p, path.extname(p))\<close>;
  \<^item> \<open>toUpperCase\<close> and \<open>toLowerCase\<close> are the case conversions of strings.
  The wall clock is the sequence of its readings: \<open>clk k\<close> is what the \<open>k\<close>-th
  reading (\<open>Date.now()\<close> or \<open>new Date()\<close>) returns, and every function that
  reads the clock takes the number of readings made so far and returns the new one.
\<close>

record date_fields =
  df_year :: int
  df_month :: int
  df_date :: int
  df_hours :: int
  df_minutes :: int

record host =
  parseDate :: "string \<Rightarrow> int option"
  localFields :: "int \<Rightarrow> date_fields"
  toISOString :: "int \<Rightarrow> string"
  pathStem :: "string \<Rightarrow> string"
  toUpperCase :: "string \<Rightarrow> string"
  toLowerCase :: "string \<Rightarrow> string"

type_synonym clock = "nat \<Rightarrow> int"

text \<open>
  A raw timestamp as the JSON export holds it: absent, \<open>null\<close>, a number of
  milliseconds (taken to be integral) or a string.
\<close>

datatype tsval = TsUndefined | TsNull | TsNum int | TsStr string

text \<open>JavaScript truthiness of a raw timestamp (\<open>0\<close> and \<open>''\<close> are falsy).\<close>

fun truthy_ts :: "tsval \<Rightarrow> bool" where
  "truthy_ts TsUndefined = False"
| "truthy_ts TsNull = False"
| "truthy_ts (TsNum n) = (n \<noteq> 0)"
| "truthy_ts (TsStr s) = (s \<noteq> [])"

text \<open>\<open>TimeClip\<close> of ECMAScript: a time value beyond 8.64e15 ms is not a date.\<close>

definition time_clip :: "int \<Rightarrow> int option" where
  "time_clip t = (if \<bar>t\<bar> \<le> 8640000000000000 then Some t else None)"

text \<open>
  \<open>new Date(v).getTime()\<close>, \<open>None\<close> standing for \<open>NaN\<close>:
  \<open>new Date(undefined)\<close> is invalid, \<open>new Date(null)\<close> is the epoch.
\<close>

fun toTime :: "host \<Rightarrow> tsval \<Rightarrow> int option" where
  "toTime h TsUndefined = None"
| "toTime h TsNull = Some 0"
| "toTime h (TsNum n) = time_clip n"
| "toTime h (TsStr s) = parseDate h s"

section \<open>Timestamp normalizer\<close>

text \<open>
  \<^verbatim>\<open>
  function isValidTimestamp(timestamp) {
      const date = new Date(timestamp);
      const now = new Date();
      return date instanceof Date && !isNaN(date) && date <= now;
  }
  function getSafeTimestamp(timestamp) {
      return isValidTimestamp(timestamp) ? timestamp : Date.now();
  }
  \<close>
\<close>

definition isValidTimestamp :: "host \<Rightarrow> clock \<Rightarrow> nat \<Rightarrow> tsval \<Rightarrow> bool \<times> nat" where
  "isValidTimestamp h clk k timestamp =
     (let date = toTime h timestamp; now = clk k
      in (case date of None \<Rightarrow> False | Some d \<Rightarrow> d \<le> now, Suc k))"

definition getSafeTimestamp :: "host \<Rightarrow> clock \<Rightarrow> nat \<Rightarrow> tsval \<Rightarrow> tsval \<times> nat" where
  "getSafeTimestamp h clk k timestamp =
     (case isValidTimestamp h clk k timestamp of
        (valid, k1) \<Rightarrow> if valid then (timestamp, k1) else (TsNum (clk k1), Suc k1))"

subsection \<open>Numbers as text\<close>

text \<open>\<open>String(n)\<close> of an integer, and of \<open>NaN\<close> (\<open>None\<close>).\<close>

function string_of_nat :: "nat \<Rightarrow> string" where
  "string_of_nat n =
     (if n < 10 then [digit_chars ! n]
      else string_of_nat (n div 10) @ [digit_chars ! (n mod 10)])"
  by pat_completeness auto
termination
  by (relation "measure id") auto

declare string_of_nat.simps [simp del]

definition string_of_int :: "int \<Rightarrow> string" where
  "string_of_int i =
     (if i < 0 then CHR ''-'' # string_of_nat (nat (- i)) else string_of_nat (nat i))"

definition js_number_string :: "int option \<Rightarrow> string" where
  "js_number_string v = (case v of None \<Rightarrow> ''NaN'' | Some i \<Rightarrow> string_of_int i)"

text \<open>\<open>String(v).padStart(2, '0')\<close>\<close>

definition padStart2 :: "int option \<Rightarrow> string" where
  "padStart2 v =
     (let s = js_number_string v
      in if length s < 2 then replicate (2 - length s) CHR ''0'' @ s else s)"

subsection \<open>formatDate and formatMessageDateTime\<close>

text \<open>
  \<^verbatim>\<open>
  function formatDate(timestamp) {
      const date = new Date(getSafeTimestamp(timestamp));
      const year = date.getFullYear();
      const month = String(date.getMonth() + 1).padStart(2, '0');
      const day = String(date.getDate()).padStart(2, '0');
      const hours = String(date.getHours()).padStart(2, '0');
      const minutes = String(date.getMinutes()).padStart(2, '0');
      return `${year}-${month}-${day}_${hours}${minutes}`;
  }
  \<close>
  \<open>formatMessageDateTime\<close> computes the same five values and returns
  \<open>{date: `${year}-${month}-${day}`, time: `${hours}:${minutes}`}\<close>.
  The getters of an Invalid Date return \<open>NaN\<close>.
\<close>

definition date_part :: "host \<Rightarrow> int option \<Rightarrow> string" where
  "date_part h date =
     (let year = map_option (\<lambda>t. df_year (localFields h t)) date;
          month = padStart2 (map_option (\<lambda>t. df_month (localFields h t) + 1) date);
          day = padStart2 (map_option (\<lambda>t. df_date (localFields h t)) date)
      in js_number_string year @ ''-'' @ month @ ''-'' @ day)"

definition hours_part :: "host \<Rightarrow> int option \<Rightarrow> string" where
  "hours_part h date = padStart2 (map_option (\<lambda>t. df_hours (localFields h t)) date)"

definition minutes_part :: "host \<Rightarrow> int option \<Rightarrow> string" where
  "minutes_part h date = padStart2 (map_option (\<lambda>t. df_minutes (localFields h t)) date)"

definition formatDate :: "host \<Rightarrow> clock \<Rightarrow> nat \<Rightarrow> tsval \<Rightarrow> string \<times> nat" where
  "formatDate h clk k timestamp =
     (case getSafeTimestamp h clk k timestamp of
        (safe, k1) \<Rightarrow>
          (let date = toTime h safe
           in (date_part h date @ ''_'' @ hours_part h date @ minutes_part h date, k1)))"

definition formatMessageDateTime ::
  "host \<Rightarrow> clock \<Rightarrow> nat \<Rightarrow> tsval \<Rightarrow> (string \<times> string) \<times> nat" where
  "formatMessageDateTime h clk k timestamp =
     (case getSafeTimestamp h clk k timestamp of
        (safe, k1) \<Rightarrow>
          (let date = toTime h safe
           in ((date_part h date, hours_part h date @ '':'' @ minutes_part h date), k1)))"

section \<open>Sessions and messages\<close>

text \<open>
  The objects of the parsed export, with the fields the converter reads. A field that
  may be absent (or \<open>null\<close>) is an \<open>option\<close>; a field that is present has the
  type its schema gives it. \<open>msg_role = None\<close> is a message whose \<open>role\<close> is not a
  string; a \<open>None\<close> in a list of messages or links is a \<open>null\<close> element. Of the
  \<open>pictures\<close> and \<open>files\<close> arrays only the length is read.
\<close>

record link =
  link_title :: "string option"
  link_url :: "string option"

record web_browsing =
  wb_links :: "link option list option"

record message =
  msg_role :: "string option"
  msg_timestamp :: tsval
  msg_content :: "string option"
  msg_model :: "string option"
  msg_pictures :: "string list option"
  msg_files :: "string list option"
  msg_links :: "link option list option"
  msg_webBrowsing :: "web_browsing option"

record chat =
  chat_title :: string
  chat_messages :: "message option list option"

datatype console_event = ConsoleLog string | ConsoleWarn string | ConsoleError string

text \<open>The exceptions that the converter can run into.\<close>

datatype js_error = TypeError | RangeError | SyntaxError | IOError

section \<open>convertChatToMarkdown (convert.js)\<close>

text \<open>
  The Markdown text is built by \<open>markdown += ...\<close>. The model keeps the pieces
  apart: one \<open>chunk\<close> for each such statement, \<open>chunk_text\<close> being the string
  that the statement appends, and the document is the concatenation of the texts.
\<close>

datatype chunk =
    DateHeading string
  | SystemFence string
  | RoleHeading string string
  | Content string
  | PicturesMarker
  | FilesMarker
  | LinksMarker
  | LinkLine string string
  | WebLinksMarker
  | WebLinkLine string string
  | Separator

fun chunk_text :: "chunk \<Rightarrow> string" where
  "chunk_text (DateHeading date) = ''## '' @ date @ ''\<newline>\<newline>''"
| "chunk_text (SystemFence content) =
     ''```system\<newline>'' @ content @ ''\<newline>```\<newline>\<newline>''"
| "chunk_text (RoleHeading label time) = ''### '' @ label @ '' | '' @ time @ ''\<newline>''"
| "chunk_text (Content content) = content @ ''\<newline>''"
| "chunk_text PicturesMarker = ''\<newline>{pictures}\<newline>''"
| "chunk_text FilesMarker = ''\<newline>{files}\<newline>''"
| "chunk_text LinksMarker = ''\<newline>{links}\<newline>''"
| "chunk_text (LinkLine label url) = ''['' @ label @ '']('' @ url @ '')\<newline>''"
| "chunk_text WebLinksMarker = ''\<newline>{web search links}\<newline>''"
| "chunk_text (WebLinkLine label url) = ''- ['' @ label @ '']('' @ url @ '')\<newline>''"
| "chunk_text Separator = ''\<newline>''"

definition markdown_text :: "chunk list \<Rightarrow> string" where
  "markdown_text chunks = concat (map chunk_text chunks)"

text \<open>
  \<^verbatim>\<open>
  msg.links.forEach(link => {
     if (link && link.url) {
         markdown += `[${link.title || link.url}](${link.url})\n`;
     }
  });
  \<close>
  and the same loop over \<open>msg.webBrowsing.links\<close> with \<open>- \<close> in front.
\<close>

definition link_lines :: "(string \<Rightarrow> string \<Rightarrow> chunk) \<Rightarrow> link option list \<Rightarrow> chunk list" where
  "link_lines line ls =
     concat (map (\<lambda>lo. case lo of
                          None \<Rightarrow> []
                        | Some l \<Rightarrow>
                            (case link_url l of
                               None \<Rightarrow> []
                             | Some u \<Rightarrow>
                                 if u = [] then [] else [line (str_or (link_title l) u) u])) ls)"

text \<open>\<open>if (msg.pictures && msg.pictures.length > 0)\<close>, and the same for \<open>files\<close>.\<close>

definition nonempty_array :: "'a list option \<Rightarrow> bool" where
  "nonempty_array v = (case v of None \<Rightarrow> False | Some xs \<Rightarrow> length xs > 0)"

definition links_section :: "message \<Rightarrow> chunk list" where
  "links_section msg =
     (case msg_links msg of
        None \<Rightarrow> []
      | Some ls \<Rightarrow> if length ls > 0 then LinksMarker # link_lines LinkLine ls else [])"

definition web_links_section :: "message \<Rightarrow> chunk list" where
  "web_links_section msg =
     (case msg_webBrowsing msg of
        None \<Rightarrow> []
      | Some wb \<Rightarrow>
          (case wb_links wb of
             None \<Rightarrow> []
           | Some ls \<Rightarrow>
               if length ls > 0 then WebLinksMarker # link_lines WebLinkLine ls else []))"

text \<open>
  Lines 108 to 153 of convert.js: what one message appends behind its date heading,
  \<open>role\<close> being \<open>msg.role.toUpperCase()\<close> and \<open>time\<close> its \<open>HH:MM\<close>.
\<close>

definition message_body :: "string \<Rightarrow> string \<Rightarrow> message \<Rightarrow> chunk list" where
  "message_body role time msg =
     (let content = str_or (msg_content msg) []
      in if role = ''SYSTEM'' then [SystemFence content]
         else
           [RoleHeading
              (if role = ''ASSISTANT'' then str_or (msg_model msg) ''ASSISTANT'' else role)
              time,
            Content content]
           @ (if nonempty_array (msg_pictures msg) then [PicturesMarker] else [])
           @ (if nonempty_array (msg_files msg) then [FilesMarker] else [])
           @ links_section msg
           @ web_links_section msg)"

text \<open>
  \<^verbatim>\<open>
  const timestamp = msg.timestamp ? getSafeTimestamp(msg.timestamp) : Date.now();
  const { date, time } = formatMessageDateTime(timestamp);
  \<close>
\<close>

definition message_datetime ::
  "host \<Rightarrow> clock \<Rightarrow> nat \<Rightarrow> message \<Rightarrow> (string \<times> string) \<times> nat" where
  "message_datetime h clk k msg =
     (case (if truthy_ts (msg_timestamp msg)
            then getSafeTimestamp h clk k (msg_timestamp msg)
            else (TsNum (clk k), Suc k)) of
        (timestamp, k1) \<Rightarrow> formatMessageDateTime h clk k1 timestamp)"

record render_state =
  rs_markdown :: "chunk list"
  rs_lastDate :: string
  rs_ticks :: nat
  rs_console :: "console_event list"

definition skip_warning :: console_event where
  "skip_warning = ConsoleWarn ''Skipping invalid message object:''"

text \<open>The body of \<open>chat.messages.forEach(msg => { ... })\<close>.\<close>

definition render_message :: "host \<Rightarrow> clock \<Rightarrow> render_state \<Rightarrow> message option \<Rightarrow> render_state" where
  "render_message h clk st mo =
     (case mo of
        None \<Rightarrow> st\<lparr>rs_console := rs_console st @ [skip_warning]\<rparr>
      | Some msg \<Rightarrow>
          (case msg_role msg of
             None \<Rightarrow> st\<lparr>rs_console := rs_console st @ [skip_warning]\<rparr>
           | Some r \<Rightarrow>
               (case message_datetime h clk (rs_ticks st) msg of
                  ((date, time), k2) \<Rightarrow>
                    st\<lparr>rs_markdown :=
                         rs_markdown st
                         @ (if date \<noteq> rs_lastDate st then [DateHeading date] else [])
                         @ message_body (toUpperCase h r) time msg
                         @ [Separator],
                       rs_lastDate := (if date \<noteq> rs_lastDate st then date else rs_lastDate st),
                       rs_ticks := k2\<rparr>)))"

definition initial_state :: "nat \<Rightarrow> render_state" where
  "initial_state k = \<lparr>rs_markdown = [], rs_lastDate = [], rs_ticks = k, rs_console = []\<rparr>"

definition render_messages :: "host \<Rightarrow> clock \<Rightarrow> nat \<Rightarrow> message option list \<Rightarrow> render_state" where
  "render_messages h clk k msgs = foldl (render_message h clk) (initial_state k) msgs"

definition invalid_chat_warning :: console_event where
  "invalid_chat_warning =
     ConsoleWarn ''Warning: Chat data is missing or messages are not in expected array format. Skipping message conversion.''"

definition invalid_chat_document :: string where
  "invalid_chat_document = ''<!-- Warning: No messages found or invalid format -->\<newline>''"

text \<open>
  \<^verbatim>\<open>
  function convertChatToMarkdown(chat) {
      let markdown = '';
      let lastDate = '';
      if (!chat || !Array.isArray(chat.messages)) {
          console.warn('Warning: ...');
          return '<!-- Warning: No messages found or invalid format -->\n';
      }
      chat.messages.forEach(msg => { ... });
      return markdown;
  }
  \<close>
  The result is the returned string, the console output and the clock readings used.
\<close>

definition convertChatToMarkdown ::
  "host \<Rightarrow> clock \<Rightarrow> nat \<Rightarrow> chat option \<Rightarrow> string \<times> console_event list \<times> nat" where
  "convertChatToMarkdown h clk k c =
     (case (case c of None \<Rightarrow> None | Some ch \<Rightarrow> chat_messages ch) of
        None \<Rightarrow> (invalid_chat_document, [invalid_chat_warning], k)
      | Some msgs \<Rightarrow>
          (let st = render_messages h clk k msgs
           in (markdown_text (rs_markdown st), rs_console st, rs_ticks st)))"

section \<open>parseCherryStudio (convert.js)\<close>

text \<open>
  What the adapter finds on disk. \<open>JSON.parse\<close> belongs to the engine; the model
  takes a JSON text together with what \<open>JSON.parse\<close> makes of it: a syntax error,
  \<open>null\<close>, or a value whose \<open>title\<close> and \<open>log\<close> properties are read
  (\<open>cj_log = None\<close>: no \<open>log\<close> property, or one that is not an array).
\<close>

record log_entry =
  entry_role :: "string option"
  entry_content :: "string option"
  entry_timestamp :: tsval

record cherry_json =
  cj_title :: "string option"
  cj_log :: "log_entry option list option"

datatype json_payload = NotJson | JsonNull | JsonObject cherry_json

record zip_entry =
  entryName :: string
  isDirectory :: bool
  entryText :: json_payload

datatype file_data = Archive "zip_entry list" | JsonText json_payload | Unreadable

definition endsWith :: "string \<Rightarrow> string \<Rightarrow> bool" where
  "endsWith s suffix =
     (length suffix \<le> length s \<and> drop (length s - length suffix) s = suffix)"

text \<open>
  \<^verbatim>\<open>
  entry => ({
      role: (entry.role || 'unknown').toLowerCase() === 'you' ? 'user'
            : (entry.role || 'unknown').toLowerCase(),
      content: entry.content || '',
      timestamp: entry.timestamp ? new Date(entry.timestamp).toISOString()
                                 : new Date().toISOString(),
  })
  \<close>
  Reading a property of a \<open>null\<close> entry throws a TypeError, and \<open>toISOString\<close>
  of an Invalid Date throws a RangeError.
\<close>

definition cherry_message :: "string \<Rightarrow> string \<Rightarrow> string \<Rightarrow> message" where
  "cherry_message r c t =
     \<lparr>msg_role = Some r, msg_timestamp = TsStr t, msg_content = Some c,
      msg_model = None, msg_pictures = None, msg_files = None, msg_links = None,
      msg_webBrowsing = None\<rparr>"

definition entry_role_name :: "host \<Rightarrow> log_entry \<Rightarrow> string" where
  "entry_role_name h e =
     (if toLowerCase h (str_or (entry_role e) ''unknown'') = ''you'' then ''user''
      else toLowerCase h (str_or (entry_role e) ''unknown''))"

definition entry_message ::
  "host \<Rightarrow> clock \<Rightarrow> nat \<Rightarrow> log_entry option \<Rightarrow> (js_error + message) \<times> nat" where
  "entry_message h clk k eo =
     (case eo of
        None \<Rightarrow> (Inl TypeError, k)
      | Some e \<Rightarrow>
          (let role = entry_role_name h e; content = str_or (entry_content e) []
           in if truthy_ts (entry_timestamp e)
              then (case toTime h (entry_timestamp e) of
                      None \<Rightarrow> (Inl RangeError, k)
                    | Some d \<Rightarrow> (Inr (cherry_message role content (toISOString h d)), k))
              else (Inr (cherry_message role content (toISOString h (clk k))), Suc k)))"

text \<open>\<open>jsonData.log.map(entry => ...)\<close>: the first exception ends the map.\<close>

fun map_entries ::
  "host \<Rightarrow> clock \<Rightarrow> nat \<Rightarrow> log_entry option list \<Rightarrow> (js_error + message list) \<times> nat" where
  "map_entries h clk k [] = (Inr [], k)"
| "map_entries h clk k (e # es) =
     (case entry_message h clk k e of
        (Inl err, k1) \<Rightarrow> (Inl err, k1)
      | (Inr m, k1) \<Rightarrow>
          (case map_entries h clk k1 es of
             (Inl err, k2) \<Rightarrow> (Inl err, k2)
           | (Inr ms, k2) \<Rightarrow> (Inr (m # ms), k2)))"

definition no_json_warning :: "string \<Rightarrow> console_event" where
  "no_json_warning filePath = ConsoleWarn (''   Warning: No JSON file found in ZIP: '' @ filePath)"

definition no_log_warning :: console_event where
  "no_log_warning =
     ConsoleWarn ''   Warning: Could not find 'log' array in the parsed Cherry Studio JSON data.''"

definition unsupported_warning :: "string \<Rightarrow> console_event" where
  "unsupported_warning filePath =
     ConsoleWarn (''   Unsupported file type for Cherry Studio: '' @ filePath)"

definition parse_error_event :: "string \<Rightarrow> console_event" where
  "parse_error_event filePath =
     ConsoleError (''   Error parsing Cherry Studio file '' @ filePath @ '':'')"

text \<open>
  Lines 371 to 384: the parsed value becomes at most one session. \<open>jsonData.title\<close>
  has been read before (lines 354 and 363), which throws on \<open>null\<close>.
\<close>

definition sessions_of_payload ::
  "host \<Rightarrow> clock \<Rightarrow> nat \<Rightarrow> string \<Rightarrow> json_payload
     \<Rightarrow> (js_error + chat list) \<times> console_event list \<times> nat" where
  "sessions_of_payload h clk k defaultTitle payload =
     (case payload of
        NotJson \<Rightarrow> (Inl SyntaxError, [], k)
      | JsonNull \<Rightarrow> (Inl TypeError, [], k)
      | JsonObject jsonData \<Rightarrow>
          (let potentialTitle = str_or (cj_title jsonData) defaultTitle
           in case cj_log jsonData of
                None \<Rightarrow> (Inr [], [no_log_warning], k)
              | Some entries \<Rightarrow>
                  (case map_entries h clk k entries of
                     (Inl err, k1) \<Rightarrow> (Inl err, [], k1)
                   | (Inr messages, k1) \<Rightarrow>
                       (Inr [\<lparr>chat_title = potentialTitle,
                              chat_messages = Some (map Some messages)\<rparr>],
                        [ConsoleLog ''[Stub] Parsed 1 chat session from Cherry Studio data.''],
                        k1))))"

text \<open>The body of the \<open>try\<close> block (lines 346 to 384).\<close>

definition parse_try ::
  "host \<Rightarrow> clock \<Rightarrow> nat \<Rightarrow> string \<Rightarrow> file_data
     \<Rightarrow> (js_error + chat list) \<times> console_event list \<times> nat" where
  "parse_try h clk k filePath file =
     (if endsWith filePath ''.zip''
      then (case file of
              Archive zipEntries \<Rightarrow>
                (case find (\<lambda>entry. endsWith (entryName entry) ''.json'' \<and> \<not> isDirectory entry)
                        zipEntries of
                   Some jsonEntry \<Rightarrow>
                     (case sessions_of_payload h clk k (pathStem h filePath) (entryText jsonEntry) of
                        (r, con, k1) \<Rightarrow>
                          (r, ConsoleLog (''   Extracting '' @ entryName jsonEntry @ '' from ZIP...'')
                              # con, k1))
                 | None \<Rightarrow> (Inr [], [no_json_warning filePath], k))
            | _ \<Rightarrow> (Inl IOError, [], k))
      else if endsWith filePath ''.json''
      then (case file of
              JsonText payload \<Rightarrow>
                (case sessions_of_payload h clk k (pathStem h filePath) payload of
                   (r, con, k1) \<Rightarrow>
                     (r, ConsoleLog (''   Reading direct JSON: '' @ filePath) # con, k1))
            | Archive zipEntries \<Rightarrow>
                (Inl SyntaxError, [ConsoleLog (''   Reading direct JSON: '' @ filePath)], k)
            | Unreadable \<Rightarrow>
                (Inl IOError, [ConsoleLog (''   Reading direct JSON: '' @ filePath)], k))
      else (Inr [], [unsupported_warning filePath], k))"

text \<open>
  The whole function: \<open>catch (error) { console.error(...); return []; }\<close> turns every
  exception of the \<open>try\<close> block into the empty list. The value is the one the
  returned promise resolves to.
\<close>

definition parseCherryStudio ::
  "host \<Rightarrow> clock \<Rightarrow> nat \<Rightarrow> string \<Rightarrow> file_data \<Rightarrow> chat list \<times> console_event list \<times> nat" where
  "parseCherryStudio h clk k filePath file =
     (case parse_try h clk k filePath file of
        (Inr chats, con, k1) \<Rightarrow>
          (chats, ConsoleLog (''[Stub] Parsing Cherry Studio file: '' @ filePath) # con, k1)
      | (Inl err, con, k1) \<Rightarrow>
          ([], ConsoleLog (''[Stub] Parsing Cherry Studio file: '' @ filePath) # con
               @ [parse_error_event filePath], k1))"

section \<open>File names\<close>

subsection \<open>saveChatsToMarkdown (convert.js)\<close>

text \<open>
  \<^verbatim>\<open>
  const fakeContent = messages && messages.length > 0
      ? `First message: ${messages[0].content.substring(0, 50)}...` : 'No messages';
  const timestamp = messages && messages.length > 0
      ? messages[0].timestamp || Date.now() : Date.now();
  const date = new Date(timestamp);
  const dateString = `${date.getFullYear()}-${...}-${...}`;
  const timeString = `${String(date.getHours()).padStart(2, '0')}${...}`;
  const safeTitle = title.replace(/[<>:"/\\|?*.\s]+/g, '_').substring(0, 50) || 'unnamed_chat';
  const filename = `${dateString}_${timeString}_${safeTitle}.md`;
  \<close>
  \<open>messages[0].content.substring\<close> throws a TypeError when the first message is
  \<open>null\<close> or has no content. \<open>\s\<close> is the white space among the code units.
\<close>

definition unsafe_title_char :: "char \<Rightarrow> bool" where
  "unsafe_title_char c =
     (c \<in> set (''<>:/|?*.'' @ [CHR 0x22, CHR 0x5C]
               @ [CHR 0x09, CHR 0x0A, CHR 0x0B, CHR 0x0C, CHR 0x0D, CHR 0x20, CHR 0xA0]))"

function replace_unsafe_runs :: "string \<Rightarrow> string" where
  "replace_unsafe_runs [] = []"
| "replace_unsafe_runs (c # cs) =
     (if unsafe_title_char c
      then CHR ''_'' # replace_unsafe_runs (dropWhile unsafe_title_char cs)
      else c # replace_unsafe_runs cs)"
  by pat_completeness auto
termination
  by (relation "measure length") (auto simp: le_imp_less_Suc length_dropWhile_le)

definition safeTitle :: "string \<Rightarrow> string" where
  "safeTitle title =
     (let t = take 50 (replace_unsafe_runs title)
      in if t = [] then ''unnamed_chat'' else t)"

definition saveChatsToMarkdown_fileName :: "host \<Rightarrow> clock \<Rightarrow> nat \<Rightarrow> chat \<Rightarrow> (js_error + string) \<times> nat" where
  "saveChatsToMarkdown_fileName h clk k ch =
     (case (case chat_messages ch of
              None \<Rightarrow> (Inr (TsNum (clk k)), Suc k)
            | Some [] \<Rightarrow> (Inr (TsNum (clk k)), Suc k)
            | Some (None # _) \<Rightarrow> (Inl TypeError, k)
            | Some (Some m # _) \<Rightarrow>
                (case msg_content m of
                   None \<Rightarrow> (Inl TypeError, k)
                 | Some _ \<Rightarrow>
                     if truthy_ts (msg_timestamp m) then (Inr (msg_timestamp m), k)
                     else (Inr (TsNum (clk k)), Suc k))) of
        (Inl err, k1) \<Rightarrow> (Inl err, k1)
      | (Inr timestamp, k1) \<Rightarrow>
          (let date = toTime h timestamp;
               dateString = date_part h date;
               timeString = hours_part h date @ minutes_part h date
           in (Inr (dateString @ ''_'' @ timeString @ ''_'' @ safeTitle (chat_title ch) @ ''.md''),
               k1)))"

subsection \<open>The loop of main (the second source file)\<close>

text \<open>
  \<^verbatim>\<open>
  jsonData['chat-sessions'].forEach(chat => {
      const timestamp = getSafeTimestamp(chat.messages[0]?.timestamp) || Date.now();
      const datePrefix = formatDate(timestamp);
      const chatName = chat.name || chat.threadName || 'unnamed_chat';
      const sanitizedChatName = sanitizeFileName(chatName);
      const fileName = `${datePrefix}_${sanitizedChatName}.md`;
      ...
  \<close>
\<close>

record chat_session =
  cs_name :: "string option"
  cs_threadName :: "string option"
  cs_messages :: "message option list"

definition first_timestamp :: "message option list \<Rightarrow> tsval" where
  "first_timestamp msgs =
     (case msgs of
        [] \<Rightarrow> TsUndefined
      | None # _ \<Rightarrow> TsUndefined
      | Some m # _ \<Rightarrow> msg_timestamp m)"

definition chatName :: "chat_session \<Rightarrow> string" where
  "chatName cs = str_or (cs_name cs) (str_or (cs_threadName cs) ''unnamed_chat'')"

definition main_datePrefix :: "host \<Rightarrow> clock \<Rightarrow> nat \<Rightarrow> chat_session \<Rightarrow> string \<times> nat" where
  "main_datePrefix h clk k cs =
     (case getSafeTimestamp h clk k (first_timestamp (cs_messages cs)) of
        (safe, k1) \<Rightarrow>
          (case (if truthy_ts safe then (safe, k1) else (TsNum (clk k1), Suc k1)) of
             (timestamp, k2) \<Rightarrow> formatDate h clk k2 timestamp))"

definition main_fileName :: "host \<Rightarrow> clock \<Rightarrow> nat \<Rightarrow> chat_session \<Rightarrow> string \<times> nat" where
  "main_fileName h clk k cs =
     (case main_datePrefix h clk k cs of
        (datePrefix, k1) \<Rightarrow>
          (datePrefix @ ''_'' @ sanitizeFileName_default (chatName cs) @ ''.md'', k1))"

section \<open>A host in the UTC time zone\<close>

text \<open>
  The concrete runs below use a process whose time zone is UTC: the civil date of a
  day number follows the proleptic Gregorian calendar. Its string parser rejects every
  string, so it is used with numeric timestamps and with strings that are no dates;
  its case conversions are the ASCII ones, and it is used with ASCII roles.
\<close>

definition utc_fields :: "int \<Rightarrow> date_fields" where
  "utc_fields t =
     (let days = t div 86400000; ms = t mod 86400000;
          z = days + 719468; era = z div 146097; doe = z mod 146097;
          yoe = (doe - doe div 1460 + doe div 36524 - doe div 146096) div 365;
          doy = doe - (365 * yoe + yoe div 4 - yoe div 100);
          mp = (5 * doy + 2) div 153;
          d = doy - (153 * mp + 2) div 5 + 1;
          m = (if mp < 10 then mp + 3 else mp - 9);
          y = yoe + era * 400 + (if m \<le> 2 then 1 else 0)
      in \<lparr>df_year = y, df_month = m - 1, df_date = d,
          df_hours = ms div 3600000, df_minutes = (ms div 60000) mod 60\<rparr>)"

definition pad_left :: "nat \<Rightarrow> string \<Rightarrow> string" where
  "pad_left w s = replicate (w - length s) CHR ''0'' @ s"

definition utc_iso :: "int \<Rightarrow> string" where
  "utc_iso t =
     (let f = utc_fields t; ms = t mod 86400000; y = df_year f
      in (if 0 \<le> y \<and> y \<le> 9999 then pad_left 4 (string_of_int y)
          else (if y < 0 then ''-'' else ''+'') @ pad_left 6 (string_of_int \<bar>y\<bar>))
         @ ''-'' @ pad_left 2 (string_of_int (df_month f + 1))
         @ ''-'' @ pad_left 2 (string_of_int (df_date f))
         @ ''T'' @ pad_left 2 (string_of_int (df_hours f))
         @ '':'' @ pad_left 2 (string_of_int (df_minutes f))
         @ '':'' @ pad_left 2 (string_of_int ((ms div 1000) mod 60))
         @ ''.'' @ pad_left 3 (string_of_int (ms mod 1000)) @ ''Z'')"

definition posix_stem :: "string \<Rightarrow> string" where
  "posix_stem p =
     (let base = rev (takeWhile (\<lambda>c. c \<noteq> CHR ''/'') (rev p));
          ext = rev (takeWhile (\<lambda>c. c \<noteq> CHR ''.'') (rev base))
      in if length ext + 1 < length base then take (length base - length ext - 1) base
         else base)"

definition utc_host :: host where
  "utc_host = \<lparr>parseDate = (\<lambda>s. None), localFields = utc_fields,
               toISOString = utc_iso, pathStem = posix_stem,
               toUpperCase = ascii_upper, toLowerCase = ascii_lower\<rparr>"

section \<open>Notions used to state the properties\<close>

text \<open>Underscores, and pairs of adjacent code units that are not both underscores.\<close>

abbreviation (input) is_underscore :: "char \<Rightarrow> bool" where
  "is_underscore \<equiv> (\<lambda>d. d = CHR ''_'')"

abbreviation (input) no_double_underscore :: "char \<Rightarrow> char \<Rightarrow> bool" where
  "no_double_underscore \<equiv> (\<lambda>a b. \<not> (a = CHR ''_'' \<and> b = CHR ''_''))"

text \<open>The date headings of a document, in the order in which they were appended.\<close>

definition date_headings :: "chunk list \<Rightarrow> string list" where
  "date_headings chunks =
     concat (map (\<lambda>c. case c of DateHeading d \<Rightarrow> [d] | _ \<Rightarrow> []) chunks)"

text \<open>The chunks that are date headings; their texts are the level-2 heading lines.\<close>

definition is_date_heading :: "chunk \<Rightarrow> bool" where
  "is_date_heading c = (case c of DateHeading d \<Rightarrow> True | _ \<Rightarrow> False)"

text \<open>
  The test of line 90, \<open>!msg || typeof msg.role !== 'string'\<close>, negated: the
  messages that the loop renders.
\<close>

definition renderable :: "message option \<Rightarrow> bool" where
  "renderable mo = (case mo of None \<Rightarrow> False | Some msg \<Rightarrow> msg_role msg \<noteq> None)"

text \<open>
  The calendar dates (\<open>YYYY-MM-DD\<close>) that the loop computes for the rendered
  messages of a session, with the clock readings the loop makes.
\<close>

fun message_dates :: "host \<Rightarrow> clock \<Rightarrow> nat \<Rightarrow> message option list \<Rightarrow> string list" where
  "message_dates h clk k [] = []"
| "message_dates h clk k (mo # ms) =
     (case mo of
        None \<Rightarrow> message_dates h clk k ms
      | Some msg \<Rightarrow>
          (case msg_role msg of
             None \<Rightarrow> message_dates h clk k ms
           | Some r \<Rightarrow>
               (case message_datetime h clk k msg of
                  ((date, time), k2) \<Rightarrow> date # message_dates h clk k2 ms)))"

text \<open>A link entry that the loop over the links skips: \<open>!(link && link.url)\<close>.\<close>

definition lacks_url :: "link option \<Rightarrow> bool" where
  "lacks_url lo = (case lo of None \<Rightarrow> True | Some l \<Rightarrow> \<not> truthy_str (link_url l))"

text \<open>
  The name component as the specification words it: every character outside
  letters, digits, hyphen and underscore replaced by an underscore, consecutive
  underscores collapsed, leading and trailing underscores trimmed, the result cut to
  50 characters, and the placeholder when nothing is left.
\<close>

fun collapse_consecutive :: "string \<Rightarrow> string" where
  "collapse_consecutive (a # b # cs) =
     (if a = CHR ''_'' \<and> b = CHR ''_'' then collapse_consecutive (b # cs)
      else a # collapse_consecutive (b # cs))"
| "collapse_consecutive cs = cs"

definition spec_sanitizedTitle :: "string \<Rightarrow> string" where
  "spec_sanitizedTitle title =
     (let replaced = map (\<lambda>c. if c \<in> set lower_letters \<or> c \<in> set upper_letters
                                  \<or> c \<in> set digit_chars \<or> c = CHR ''-'' \<or> c = CHR ''_''
                               then c else CHR ''_'') title;
          collapsed = collapse_consecutive replaced;
          trimmed = rev (dropWhile (\<lambda>c. c = CHR ''_'')
                      (rev (dropWhile (\<lambda>c. c = CHR ''_'') collapsed)));
          truncated = take 50 trimmed
      in if truncated = [] then ''unnamed_chat'' else truncated)"

section \<open>Example sessions\<close>

text \<open>
  The clock of the concrete runs starts at 2024-03-09T16:00:00Z and advances by one
  millisecond with each reading. \<open>1709288100000\<close> is 2024-03-01T10:15:00Z.
\<close>

definition example_clock :: clock where
  "example_clock k = 1710000000000 + int k"

definition plain_message :: "string \<Rightarrow> tsval \<Rightarrow> string \<Rightarrow> message" where
  "plain_message r t c =
     \<lparr>msg_role = Some r, msg_timestamp = t, msg_content = Some c,
      msg_model = None, msg_pictures = None, msg_files = None, msg_links = None,
      msg_webBrowsing = None\<rparr>"

text \<open>A session whose second message has no timestamp.\<close>

definition interleaved_session :: "message option list" where
  "interleaved_session =
     [Some (plain_message ''user'' (TsNum 1709288100000) ''Where to go?''),
      Some (plain_message ''assistant'' TsUndefined ''Try Kyoto.''),
      Some (plain_message ''user'' (TsNum 1709288160000) ''Thanks'')]"

definition ordered_session :: "message option list" where
  "ordered_session =
     [Some (plain_message ''user'' (TsNum 1709288100000) ''Where to go?''),
      Some (plain_message ''user'' (TsNum 1709288160000) ''Thanks''),
      Some (plain_message ''assistant'' TsUndefined ''Try Kyoto.'')]"

definition system_example :: message where
  "system_example =
     \<lparr>msg_role = Some ''System'', msg_timestamp = TsNum 1709288100000,
      msg_content = Some ''ls -la'', msg_model = Some ''gpt-4'', msg_pictures = None,
      msg_files = None, msg_links = None, msg_webBrowsing = None\<rparr>"

text \<open>
  A session with a \<open>null\<close> element and a message without a role between two
  ordinary messages.
\<close>

definition roleless_example :: message where
  "roleless_example =
     \<lparr>msg_role = None, msg_timestamp = TsNum 1709288100000,
      msg_content = Some ''lost'', msg_model = None, msg_pictures = None,
      msg_files = None, msg_links = None, msg_webBrowsing = None\<rparr>"

definition patchy_session :: "message option list" where
  "patchy_session =
     [None,
      Some (plain_message ''user'' (TsNum 1709288100000) ''Where to go?''),
      Some roleless_example,
      Some (plain_message ''assistant'' (TsNum 1709288160000) ''Try Kyoto.'')]"

text \<open>A message whose three link entries are all without a url.\<close>

definition linkless_example :: message where
  "linkless_example =
     \<lparr>msg_role = Some ''user'', msg_timestamp = TsNum 1709288100000,
      msg_content = Some ''See the docs'', msg_model = None, msg_pictures = None,
      msg_files = None,
      msg_links = Some [None, Some \<lparr>link_title = Some ''Docs'', link_url = None\<rparr>,
                        Some \<lparr>link_title = None, link_url = Some []\<rparr>],
      msg_webBrowsing = None\<rparr>"

text \<open>A Cherry Studio log whose second entry has a timestamp that is no date.\<close>

definition bad_timestamp_log :: cherry_json where
  "bad_timestamp_log =
     \<lparr>cj_title = Some ''Trip'',
      cj_log = Some [Some \<lparr>entry_role = Some ''You'', entry_content = Some ''Where to go?'',
                          entry_timestamp = TsNum 1709288100000\<rparr>,
                    Some \<lparr>entry_role = Some ''assistant'', entry_content = Some ''Try Kyoto.'',
                          entry_timestamp = TsStr ''not a date''\<rparr>]\<rparr>"

definition archive_without_json :: "zip_entry list" where
  "archive_without_json =
     [\<lparr>entryName = ''readme.txt'', isDirectory = False, entryText = NotJson\<rparr>,
      \<lparr>entryName = ''backup.json'', isDirectory = True, entryText = NotJson\<rparr>]"

definition payload_without_log :: cherry_json where
  "payload_without_log = \<lparr>cj_title = Some ''Trip'', cj_log = None\<rparr>"

section \<open>Properties of sanitizeFileName\<close>

text \<open>
  Claim C9. For every input string and every \<open>maxLength\<close>, \<open>sanitizeFileName\<close>
  returns a non-empty string of at most \<open>max(maxLength, 12)\<close> code units, 12 being
  the length of \<open>unnamed_chat\<close>; with the default \<open>maxLength\<close> of 50 the result
  has between 1 and 50 code units.
\<close>

theorem sanitizeFileName_length:
  "sanitizeFileName name maxLength \<noteq> []
   \<and> int (length (sanitizeFileName name maxLength)) \<le> max maxLength 12
   \<and> 1 \<le> length (sanitizeFileName_default name)
   \<and> length (sanitizeFileName_default name) \<le> 50"
proof -
  have ne: "sanitizeFileName n m \<noteq> []" for n m
    by (simp add: sanitizeFileName_def Let_def placeholder_name_def)
  have bound: "int (length (sanitizeFileName n m)) \<le> max m 12" for n m
    by (auto simp: sanitizeFileName_def Let_def placeholder_name_def)
  have "length (sanitizeFileName_default name) \<noteq> 0"
    using ne [of name 50] by (simp add: sanitizeFileName_default_def)
  moreover have "length (sanitizeFileName_default name) \<le> 50"
    using bound [of name 50] by (simp add: sanitizeFileName_default_def)
  ultimately show ?thesis using ne bound by (simp add: Suc_le_eq)
qed

text \<open>
  Claim C3 says that \<open>sanitizeFileName\<close> is idempotent. The underscores are trimmed
  before the string is cut to \<open>maxLength\<close>, so the cut can end on an underscore,
  which a second call removes: for 49 letters followed by \<open>_b\<close> the first call
  returns the letters and the underscore (50 code units), the second call the
  letters alone.
\<close>

theorem sanitizeFileName_not_idempotent:
  "sanitizeFileName_default ''aaaaaaaaaaaaaaaaaaaaaaaaaaaaaaaaaaaaaaaaaaaaaaaaa_b''
     = ''aaaaaaaaaaaaaaaaaaaaaaaaaaaaaaaaaaaaaaaaaaaaaaaaa_''
   \<and> sanitizeFileName_default
         (sanitizeFileName_default ''aaaaaaaaaaaaaaaaaaaaaaaaaaaaaaaaaaaaaaaaaaaaaaaaa_b'')
     = ''aaaaaaaaaaaaaaaaaaaaaaaaaaaaaaaaaaaaaaaaaaaaaaaaa''"
  by code_simp

subsection \<open>Where the sanitizer is idempotent\<close>

text \<open>
  The result of a call consists of name characters, has no two adjacent underscores,
  does not start with an underscore and has at most 50 code units. It is a fixed point
  of the sanitizer unless it ends with an underscore, which only the cut to 50 code
  units can leave behind. So the sanitizer is idempotent on every name whose trimmed
  form has at most 50 code units, and from the second call on for every name.
\<close>

lemma truncate_50: "(if int (length t) > 50 then take (nat 50) t else t) = take 50 t"
  by simp

lemma name_char_underscore: "name_char CHR ''_''"
  by (simp add: name_char_def)

lemma replace_invalid_valid: "list_all name_char (replace_invalid s)"
  by (induction s) (simp_all add: replace_invalid_def name_char_underscore)

lemma replace_invalid_id: "list_all name_char s \<Longrightarrow> replace_invalid s = s"
  by (induction s) (simp_all add: replace_invalid_def)

lemma collapse_subset: "set (collapse_underscores s) \<subseteq> set s"
proof (induction s rule: collapse_underscores.induct)
  case 1
  then show ?case by simp
next
  case (2 c cs)
  have "set (dropWhile is_underscore cs) \<subseteq> set cs"
    by (meson set_dropWhileD subsetI)
  with 2 show ?case by auto
qed

lemma collapse_successively: "successively no_double_underscore (collapse_underscores s)"
proof (induction s rule: collapse_underscores.induct)
  case 1
  then show ?case by simp
next
  case (2 c cs)
  show ?case
  proof (cases "c = CHR ''_''")
    case True
    let ?d = "dropWhile is_underscore cs"
    have "collapse_underscores ?d = [] \<or> hd (collapse_underscores ?d) \<noteq> CHR ''_''"
    proof (cases ?d)
      case Nil
      show ?thesis unfolding Nil by simp
    next
      case (Cons x xs)
      then have "x \<noteq> CHR ''_''" using hd_dropWhile [of is_underscore cs] by auto
      then show ?thesis using Cons by simp
    qed
    with 2 True show ?thesis by (auto simp: successively_Cons)
  next
    case False
    with 2 show ?thesis by (auto simp: successively_Cons)
  qed
qed

lemma collapse_id: "successively no_double_underscore s \<Longrightarrow> collapse_underscores s = s"
proof (induction s rule: collapse_underscores.induct)
  case 1
  then show ?case by simp
next
  case (2 c cs)
  show ?case
  proof (cases "c = CHR ''_''")
    case True
    have "cs = [] \<or> hd cs \<noteq> CHR ''_''" and s: "successively no_double_underscore cs"
      using "2.prems" True by (auto simp: successively_Cons)
    then have "dropWhile is_underscore cs = cs" by (cases cs) auto
    with 2 True s show ?thesis by simp
  next
    case False
    with 2 show ?thesis by (auto simp: successively_Cons)
  qed
qed

lemma trim_ends:
  "trim_underscores s = [] \<or>
   (hd (trim_underscores s) \<noteq> CHR ''_'' \<and> last (trim_underscores s) \<noteq> CHR ''_'')"
proof -
  define d where "d = dropWhile is_underscore s"
  define e where "e = dropWhile is_underscore (rev d)"
  have t: "trim_underscores s = rev e" by (simp add: trim_underscores_def e_def d_def)
  show ?thesis
  proof (cases "e = []")
    case True
    then show ?thesis by (simp add: t)
  next
    case False
    have hd_e: "hd e \<noteq> CHR ''_''"
      using hd_dropWhile [of is_underscore "rev d"] False unfolding e_def by blast
    have "d \<noteq> []"
    proof
      assume "d = []"
      then have "e = []" by (simp add: e_def)
      with False show False by contradiction
    qed
    then have hd_d: "hd d \<noteq> CHR ''_''"
      using hd_dropWhile [of is_underscore s] unfolding d_def by blast
    have "last (takeWhile is_underscore (rev d) @ e) = last e" using False by (rule last_appendR)
    then have "last (rev d) = last e" by (simp only: e_def takeWhile_dropWhile_id)
    then have "last e = hd d" by (simp only: last_rev)
    then show ?thesis using hd_e hd_d by (simp add: t hd_rev last_rev)
  qed
qed

lemma trim_id:
  assumes "s = [] \<or> (hd s \<noteq> CHR ''_'' \<and> last s \<noteq> CHR ''_'')"
  shows "trim_underscores s = s"
proof (cases s)
  case Nil
  then show ?thesis by (simp add: trim_underscores_def)
next
  case (Cons c cs)
  then have h: "hd s \<noteq> CHR ''_''" and l: "last s \<noteq> CHR ''_''" using assms by auto
  have "dropWhile is_underscore s = s" using h Cons by simp
  moreover have "dropWhile is_underscore (rev s) = rev s"
  proof -
    have "hd (rev s) \<noteq> CHR ''_''" using l by (simp add: hd_rev)
    then show ?thesis by (cases "rev s") simp_all
  qed
  ultimately show ?thesis by (simp add: trim_underscores_def)
qed

lemma trim_sublist:
  "\<exists>xs ys. s = xs @ trim_underscores s @ ys"
proof -
  let ?d = "dropWhile is_underscore s"
  have a: "s = takeWhile is_underscore s @ ?d" by simp
  have "rev ?d = takeWhile is_underscore (rev ?d) @ dropWhile is_underscore (rev ?d)" by simp
  then have "?d = rev (dropWhile is_underscore (rev ?d)) @ rev (takeWhile is_underscore (rev ?d))"
    by (metis rev_append rev_rev_ident)
  then have "s = takeWhile is_underscore s @ trim_underscores s @ rev (takeWhile is_underscore (rev ?d))"
    using a by (metis trim_underscores_def)
  then show ?thesis by blast
qed

lemma trim_preserves:
  assumes "list_all name_char s" and "successively no_double_underscore s"
  shows "list_all name_char (trim_underscores s) \<and> successively no_double_underscore (trim_underscores s)"
proof -
  obtain xs ys where s: "s = xs @ trim_underscores s @ ys" using trim_sublist by blast
  have "list_all name_char (xs @ trim_underscores s @ ys)" using assms(1) s by metis
  moreover have "successively no_double_underscore (xs @ trim_underscores s @ ys)" using assms(2) s by metis
  ultimately show ?thesis by (simp add: successively_append_iff)
qed


lemma trim_length: "length (trim_underscores s) \<le> length s"
proof -
  obtain xs ys where "s = xs @ trim_underscores s @ ys" using trim_sublist by blast
  then have "length s = length xs + length (trim_underscores s) + length ys"
    by (metis length_append add.assoc)
  then show ?thesis by simp
qed

text \<open>The shape of every result of the sanitizer.\<close>

lemma sanitize_shape:
  "list_all name_char (sanitizeFileName_default x)
   \<and> successively no_double_underscore (sanitizeFileName_default x)
   \<and> sanitizeFileName_default x \<noteq> []
   \<and> hd (sanitizeFileName_default x) \<noteq> CHR ''_''
   \<and> length (sanitizeFileName_default x) \<le> 50"
proof -
  define t where "t = trim_underscores (collapse_underscores (replace_invalid x))"
  have r: "sanitizeFileName_default x = (if take 50 t = [] then ''unnamed_chat'' else take 50 t)"
    unfolding sanitizeFileName_default_def sanitizeFileName_def t_def [symmetric] Let_def
      truncate_50 placeholder_name_def ..
  have vt: "list_all name_char t" and nt: "successively no_double_underscore t"
    unfolding t_def
    using trim_preserves [of "collapse_underscores (replace_invalid x)"]
      collapse_successively [of "replace_invalid x"] collapse_subset [of "replace_invalid x"]
      replace_invalid_valid [of x]
    by (auto simp: list_all_iff)
  show ?thesis
  proof (cases "take 50 t = []")
    case True
    have "list_all name_char ''unnamed_chat''"
      by (simp add: name_char_def lower_letters_def)
    then show ?thesis using True by (simp add: r)
  next
    case False
    then have "t \<noteq> []" by auto
    then have "hd t \<noteq> CHR ''_''" using trim_ends [of "collapse_underscores (replace_invalid x)"]
      by (simp add: t_def)
    then have h: "hd (take 50 t) \<noteq> CHR ''_''" using \<open>t \<noteq> []\<close> by (cases t) simp_all
    have "list_all name_char (take 50 t @ drop 50 t)"
      and "successively no_double_underscore (take 50 t @ drop 50 t)"
      using vt nt by (simp_all only: append_take_drop_id)
    then have "list_all name_char (take 50 t)" and "successively no_double_underscore (take 50 t)"
      by (simp_all only: successively_append_iff list_all_append)
    then show ?thesis using False h by (simp add: r)
  qed
qed

lemma sanitize_fixed:
  assumes "list_all name_char r" and "successively no_double_underscore r" and "r \<noteq> []"
    and "hd r \<noteq> CHR ''_''" and "last r \<noteq> CHR ''_''" and "length r \<le> 50"
  shows "sanitizeFileName_default r = r"
proof -
  have "trim_underscores (collapse_underscores (replace_invalid r)) = r"
    using assms by (simp add: replace_invalid_id collapse_id trim_id)
  then show ?thesis
    using assms(3,6)
    by (simp add: sanitizeFileName_default_def sanitizeFileName_def Let_def)
qed

lemma sanitize_short_last:
  assumes "length (trim_underscores (collapse_underscores (replace_invalid x))) \<le> 50"
  shows "last (sanitizeFileName_default x) \<noteq> CHR ''_''"
proof -
  define t where "t = trim_underscores (collapse_underscores (replace_invalid x))"
  have r: "sanitizeFileName_default x = (if t = [] then ''unnamed_chat'' else t)"
    using assms
    by (simp add: sanitizeFileName_default_def sanitizeFileName_def Let_def t_def
          placeholder_name_def)
  show ?thesis
    using trim_ends [of "collapse_underscores (replace_invalid x)"]
    by (auto simp: r t_def)
qed

lemma sanitize_idempotent_unless_cut:
  "last (sanitizeFileName_default x) \<noteq> CHR ''_''
   \<Longrightarrow> sanitizeFileName_default (sanitizeFileName_default x) = sanitizeFileName_default x"
  using sanitize_shape [of x] by (simp add: sanitize_fixed)

lemma sanitize_idempotent_short:
  "length (trim_underscores (collapse_underscores (replace_invalid x))) \<le> 50
   \<Longrightarrow> sanitizeFileName_default (sanitizeFileName_default x) = sanitizeFileName_default x"
  by (simp add: sanitize_short_last sanitize_idempotent_unless_cut)

lemma sanitize_idempotent_from_second:
  "sanitizeFileName_default (sanitizeFileName_default (sanitizeFileName_default x))
     = sanitizeFileName_default (sanitizeFileName_default x)"
proof -
  define r where "r = sanitizeFileName_default x"
  have shape: "list_all name_char r" "successively no_double_underscore r" "length r \<le> 50"
    using sanitize_shape [of x] by (simp_all add: r_def)
  have "trim_underscores (collapse_underscores (replace_invalid r)) = trim_underscores r"
    using shape by (simp add: replace_invalid_id collapse_id)
  moreover have "length (trim_underscores r) \<le> 50"
    using trim_length [of r] shape(3) by simp
  ultimately show ?thesis
    unfolding r_def [symmetric] by (simp add: sanitize_idempotent_short)
qed

section \<open>Properties of the timestamp normalizer\<close>

text \<open>
  A raw timestamp that the \<open>Date\<close> constructor converts to an instant \<open>d\<close> not
  later than the clock reading of the validity check is returned unchanged. A raw
  timestamp that does not convert (\<open>undefined\<close> among them), or converts to an
  instant later than that reading, is replaced by the reading that \<open>Date.now()\<close>
  makes in the same call.
\<close>

lemma getSafeTimestamp_normalizes:
  "(toTime h t = Some d \<and> d \<le> clk k \<longrightarrow> getSafeTimestamp h clk k t = (t, Suc k))
   \<and> (toTime h t = None \<or> (toTime h t = Some d \<and> clk k < d)
        \<longrightarrow> getSafeTimestamp h clk k t = (TsNum (clk (Suc k)), Suc (Suc k)))
   \<and> toTime h TsUndefined = None"
  by (auto simp: getSafeTimestamp_def isValidTimestamp_def)

lemma getSafeTimestamp_normalizes_examples:
  "toTime utc_host (TsNum 1709288100000) = Some 1709288100000
   \<and> (1709288100000::int) \<le> 1710000000000
   \<and> getSafeTimestamp utc_host (\<lambda>k. 1710000000000 + int k) 0 (TsNum 1709288100000)
       = (TsNum 1709288100000, 1)
   \<and> toTime utc_host (TsStr ''yesterday'') = None
   \<and> getSafeTimestamp utc_host (\<lambda>k. 1710000000000 + int k) 0 (TsStr ''yesterday'')
       = (TsNum 1710000000001, 2)
   \<and> toTime utc_host (TsNum 1893456000000) = Some 1893456000000
   \<and> (1710000000000::int) < 1893456000000
   \<and> getSafeTimestamp utc_host (\<lambda>k. 1710000000000 + int k) 0 (TsNum 1893456000000)
       = (TsNum 1710000000001, 2)
   \<and> getSafeTimestamp utc_host (\<lambda>k. 1710000000000 + int k) 0 TsUndefined
       = (TsNum 1710000000001, 2)"
  using getSafeTimestamp_normalizes [of utc_host "TsNum 1709288100000" 1709288100000
          "\<lambda>k. 1710000000000 + int k" 0]
        getSafeTimestamp_normalizes [of utc_host "TsStr ''yesterday''" 0
          "\<lambda>k. 1710000000000 + int k" 0]
        getSafeTimestamp_normalizes [of utc_host "TsNum 1893456000000" 1893456000000
          "\<lambda>k. 1710000000000 + int k" 0]
        getSafeTimestamp_normalizes [of utc_host TsUndefined 0
          "\<lambda>k. 1710000000000 + int k" 0]
  by (simp add: utc_host_def time_clip_def)

text \<open>The date and the time of the epoch in the UTC host.\<close>

lemma epoch_fields:
  "date_part utc_host (Some 0) = ''1970-01-01''"
  "hours_part utc_host (Some 0) = ''00''"
  "minutes_part utc_host (Some 0) = ''00''"
  by code_simp+

text \<open>
  Claim C1 says that a missing timestamp is replaced by the current time, never by
  a fixed epoch. A timestamp that is \<open>null\<close> in the export is missing, but
  \<open>new Date(null)\<close> is the valid date of time value 0, which is not later than
  now: \<open>getSafeTimestamp(null)\<close> returns \<open>null\<close>, and \<open>formatMessageDateTime\<close>
  and \<open>formatDate\<close>, which build their date from the returned value, print the
  first of January 1970.
\<close>

theorem getSafeTimestamp_null_is_epoch:
  "getSafeTimestamp utc_host example_clock 0 TsNull = (TsNull, 1)
   \<and> formatMessageDateTime utc_host example_clock 0 TsNull = ((''1970-01-01'', ''00:00''), 1)
   \<and> formatDate utc_host example_clock 0 TsNull = (''1970-01-01_0000'', 1)"
  by (simp add: getSafeTimestamp_def isValidTimestamp_def formatMessageDateTime_def
        formatDate_def example_clock_def epoch_fields Let_def)

section \<open>Properties of the renderer\<close>

subsection \<open>The text of the chunks\<close>

lemma markdown_text_append [simp]:
  "markdown_text (xs @ ys) = markdown_text xs @ markdown_text ys"
  by (simp add: markdown_text_def)

lemma markdown_text_Nil [simp]: "markdown_text [] = []"
  by (simp add: markdown_text_def)

lemma markdown_text_Cons: "markdown_text (c # cs) = chunk_text c @ markdown_text cs"
  by (simp add: markdown_text_def)

lemma heading_lines:
  "map chunk_text (filter is_date_heading cs)
     = map (\<lambda>d. ''## '' @ d @ ''\<newline>\<newline>'') (date_headings cs)"
  by (induction cs) (auto simp: is_date_heading_def date_headings_def split: chunk.splits)


text \<open>What a message with a role appends, as chunks and as text.\<close>

lemma render_message_text:
  assumes "msg_role msg = Some r"
  shows "rs_markdown (render_message h clk st (Some msg))
           = rs_markdown st
             @ (if fst (fst (message_datetime h clk (rs_ticks st) msg)) \<noteq> rs_lastDate st
                then [DateHeading (fst (fst (message_datetime h clk (rs_ticks st) msg)))] else [])
             @ message_body (toUpperCase h r) (snd (fst (message_datetime h clk (rs_ticks st) msg))) msg
             @ [Separator]"
    and "markdown_text (rs_markdown (render_message h clk st (Some msg)))
           = markdown_text (rs_markdown st)
             @ (if fst (fst (message_datetime h clk (rs_ticks st) msg)) \<noteq> rs_lastDate st
                then ''## '' @ fst (fst (message_datetime h clk (rs_ticks st) msg))
                     @ ''\<newline>\<newline>''
                else [])
             @ markdown_text
                 (message_body (toUpperCase h r)
                    (snd (fst (message_datetime h clk (rs_ticks st) msg))) msg)
             @ ''\<newline>''"
    and "rs_console (render_message h clk st (Some msg)) = rs_console st"
  using assms
  by (auto simp: render_message_def markdown_text_Cons split: prod.splits)

subsection \<open>System messages\<close>


subsection \<open>Links without a url\<close>

lemma link_lines_lacking: "list_all lacks_url ls \<Longrightarrow> link_lines line ls = []"
  by (induction ls) (auto simp: link_lines_def lacks_url_def truthy_str_def split: option.splits)

lemma links_marker_iff:
  "(LinksMarker \<in> set (links_section msg)) = nonempty_array (msg_links msg)"
  by (auto simp: links_section_def nonempty_array_def split: option.splits)

text \<open>
  Claim C10. A message that is not a system message and whose \<open>links\<close> array is not
  empty, every entry of it being \<open>null\<close> or without a url, still appends the
  \<open>{links}\<close> marker line, and no link line behind it: the text that the message
  adds to the document has the line \<open>{links}\<close> right behind the content and the
  attachment placeholders, followed by the web search links and the separator.
\<close>

theorem links_marker_without_lines:
  assumes "msg_links msg = Some ls" and "ls \<noteq> []" and "list_all lacks_url ls"
  shows "links_section msg = [LinksMarker]
         \<and> markdown_text (links_section msg) = ''\<newline>{links}\<newline>''
         \<and> (role \<noteq> ''SYSTEM''
            \<longrightarrow> message_body role time msg
                = [RoleHeading (if role = ''ASSISTANT'' then str_or (msg_model msg) ''ASSISTANT''
                                else role) time,
                   Content (str_or (msg_content msg) [])]
                  @ (if nonempty_array (msg_pictures msg) then [PicturesMarker] else [])
                  @ (if nonempty_array (msg_files msg) then [FilesMarker] else [])
                  @ [LinksMarker]
                  @ web_links_section msg
              \<and> markdown_text (message_body role time msg)
                = ''### '' @ (if role = ''ASSISTANT'' then str_or (msg_model msg) ''ASSISTANT''
                              else role) @ '' | '' @ time @ ''\<newline>''
                  @ str_or (msg_content msg) [] @ ''\<newline>''
                  @ (if nonempty_array (msg_pictures msg) then ''\<newline>{pictures}\<newline>'' else [])
                  @ (if nonempty_array (msg_files msg) then ''\<newline>{files}\<newline>'' else [])
                  @ ''\<newline>{links}\<newline>''
                  @ markdown_text (web_links_section msg))
         \<and> (msg_role msg = Some r \<and> toUpperCase h r \<noteq> ''SYSTEM''
            \<longrightarrow> markdown_text (rs_markdown (render_message h clk st (Some msg)))
                = markdown_text (rs_markdown st)
                  @ (if fst (fst (message_datetime h clk (rs_ticks st) msg)) \<noteq> rs_lastDate st
                     then ''## '' @ fst (fst (message_datetime h clk (rs_ticks st) msg))
                          @ ''\<newline>\<newline>''
                     else [])
                  @ markdown_text
                      (message_body (toUpperCase h r)
                         (snd (fst (message_datetime h clk (rs_ticks st) msg))) msg)
                  @ ''\<newline>'')"
proof -
  have ls: "links_section msg = [LinksMarker]"
    using assms by (simp add: links_section_def link_lines_lacking)
  have body: "message_body role time msg
                = [RoleHeading (if role = ''ASSISTANT'' then str_or (msg_model msg) ''ASSISTANT''
                                else role) time,
                   Content (str_or (msg_content msg) [])]
                  @ (if nonempty_array (msg_pictures msg) then [PicturesMarker] else [])
                  @ (if nonempty_array (msg_files msg) then [FilesMarker] else [])
                  @ [LinksMarker]
                  @ web_links_section msg" if "role \<noteq> ''SYSTEM''"
    using that by (simp add: message_body_def ls)
  have body_text: "markdown_text (message_body role time msg)
                = ''### '' @ (if role = ''ASSISTANT'' then str_or (msg_model msg) ''ASSISTANT''
                              else role) @ '' | '' @ time @ ''\<newline>''
                  @ str_or (msg_content msg) [] @ ''\<newline>''
                  @ (if nonempty_array (msg_pictures msg) then ''\<newline>{pictures}\<newline>'' else [])
                  @ (if nonempty_array (msg_files msg) then ''\<newline>{files}\<newline>'' else [])
                  @ ''\<newline>{links}\<newline>''
                  @ markdown_text (web_links_section msg)" if "role \<noteq> ''SYSTEM''"
    by (simp add: body [OF that] markdown_text_Cons)
  have "markdown_text (links_section msg) = ''\<newline>{links}\<newline>''"
    by (simp add: ls markdown_text_Cons)
  then show ?thesis
    using ls body body_text render_message_text(2) [of msg r h clk st] by blast
qed

subsection \<open>Messages without a role\<close>

lemma render_skip:
  "\<not> renderable mo \<Longrightarrow>
   render_message h clk st mo = st\<lparr>rs_console := rs_console st @ [skip_warning]\<rparr>"
  by (auto simp: renderable_def render_message_def split: option.splits)

lemma render_keep_console:
  "renderable mo \<Longrightarrow> rs_console (render_message h clk st mo) = rs_console st"
  by (auto simp: renderable_def render_message_def split: option.splits prod.splits)

text \<open>What a message appends does not depend on the console output so far.\<close>

lemma render_message_console_irrelevant:
  "(render_message h clk (st\<lparr>rs_console := c\<rparr>) mo)\<lparr>rs_console := []\<rparr>
     = (render_message h clk st mo)\<lparr>rs_console := []\<rparr>"
  by (auto simp: render_message_def split: option.splits prod.splits)

lemma foldl_console_irrelevant:
  "(foldl (render_message h clk) (st\<lparr>rs_console := c\<rparr>) msgs)\<lparr>rs_console := []\<rparr>
     = (foldl (render_message h clk) st msgs)\<lparr>rs_console := []\<rparr>"
proof (induction msgs arbitrary: st c)
  case Nil
  then show ?case by simp
next
  case (Cons mo msgs)
  let ?a = "render_message h clk (st\<lparr>rs_console := c\<rparr>) mo"
  let ?b = "render_message h clk st mo"
  have "(foldl (render_message h clk) ?a msgs)\<lparr>rs_console := []\<rparr>
        = (foldl (render_message h clk) (?a\<lparr>rs_console := []\<rparr>) msgs)\<lparr>rs_console := []\<rparr>"
    by (simp only: Cons.IH)
  also have "\<dots> = (foldl (render_message h clk) (?b\<lparr>rs_console := []\<rparr>) msgs)\<lparr>rs_console := []\<rparr>"
    by (simp only: render_message_console_irrelevant)
  also have "\<dots> = (foldl (render_message h clk) ?b msgs)\<lparr>rs_console := []\<rparr>"
    by (simp only: Cons.IH)
  finally show ?case by simp
qed

lemma foldl_skips:
  "(foldl (render_message h clk) st msgs)\<lparr>rs_console := []\<rparr>
     = (foldl (render_message h clk) st (filter renderable msgs))\<lparr>rs_console := []\<rparr>"
proof (induction msgs arbitrary: st)
  case Nil
  then show ?case by simp
next
  case (Cons mo msgs)
  show ?case
  proof (cases "renderable mo")
    case True
    then show ?thesis by (simp add: Cons.IH)
  next
    case False
    then show ?thesis
      by (simp add: render_skip foldl_console_irrelevant Cons.IH)
  qed
qed

lemma foldl_console:
  "rs_console (foldl (render_message h clk) st msgs)
     = rs_console st @ replicate (length (filter (\<lambda>mo. \<not> renderable mo) msgs)) skip_warning"
proof (induction msgs arbitrary: st)
  case Nil
  then show ?case by simp
next
  case (Cons mo msgs)
  show ?case
    by (cases "renderable mo")
       (simp_all add: Cons.IH render_keep_console render_skip replicate_append_same [symmetric]
          del: replicate_append_same)
qed

lemma erased_eq:
  assumes "a\<lparr>rs_console := []\<rparr> = b\<lparr>rs_console := []\<rparr>"
  shows "rs_markdown a = rs_markdown b \<and> rs_lastDate a = rs_lastDate b
         \<and> rs_ticks a = rs_ticks b"
proof -
  have "rs_markdown (a\<lparr>rs_console := []\<rparr>) = rs_markdown (b\<lparr>rs_console := []\<rparr>)"
       "rs_lastDate (a\<lparr>rs_console := []\<rparr>) = rs_lastDate (b\<lparr>rs_console := []\<rparr>)"
       "rs_ticks (a\<lparr>rs_console := []\<rparr>) = rs_ticks (b\<lparr>rs_console := []\<rparr>)"
    using assms by simp_all
  then show ?thesis by simp
qed

text \<open>
  Claim C8. A message that is \<open>null\<close> or has no string \<open>role\<close> changes nothing
  but the console, which gets one warning. A message with a role is rendered: it
  appends its date heading if one is due, its body and the separator line. So the
  loop goes on behind a skipped message: the document, the date cursor and the clock
  readings are those of the session without the skipped messages, and the console
  holds one warning for each of them. A missing session, or one whose \<open>messages\<close>
  is not an array, gives the placeholder document and one warning.
\<close>

theorem invalid_messages_skipped:
  "(\<not> renderable mo
      \<longrightarrow> render_message h clk st mo = st\<lparr>rs_console := rs_console st @ [skip_warning]\<rparr>)
   \<and> (msg_role msg = Some r
      \<longrightarrow> rs_markdown (render_message h clk st (Some msg))
          = rs_markdown st
            @ (if fst (fst (message_datetime h clk (rs_ticks st) msg)) \<noteq> rs_lastDate st
               then [DateHeading (fst (fst (message_datetime h clk (rs_ticks st) msg)))] else [])
            @ message_body (toUpperCase h r)
                (snd (fst (message_datetime h clk (rs_ticks st) msg))) msg
            @ [Separator]
        \<and> markdown_text (rs_markdown (render_message h clk st (Some msg)))
          = markdown_text (rs_markdown st)
            @ (if fst (fst (message_datetime h clk (rs_ticks st) msg)) \<noteq> rs_lastDate st
               then ''## '' @ fst (fst (message_datetime h clk (rs_ticks st) msg))
                    @ ''\<newline>\<newline>''
               else [])
            @ markdown_text
                (message_body (toUpperCase h r)
                   (snd (fst (message_datetime h clk (rs_ticks st) msg))) msg)
            @ ''\<newline>''
        \<and> rs_console (render_message h clk st (Some msg)) = rs_console st)
   \<and> rs_markdown (render_messages h clk k msgs)
     = rs_markdown (render_messages h clk k (filter renderable msgs))
   \<and> rs_ticks (render_messages h clk k msgs)
     = rs_ticks (render_messages h clk k (filter renderable msgs))
   \<and> rs_console (render_messages h clk k msgs)
     = replicate (length (filter (\<lambda>mo. \<not> renderable mo) msgs)) skip_warning
   \<and> fst (convertChatToMarkdown h clk k (Some \<lparr>chat_title = title, chat_messages = Some msgs\<rparr>))
     = fst (convertChatToMarkdown h clk k
              (Some \<lparr>chat_title = title, chat_messages = Some (filter renderable msgs)\<rparr>))
   \<and> fst (convertChatToMarkdown h clk k (Some \<lparr>chat_title = title, chat_messages = Some msgs\<rparr>))
     = concat (map chunk_text (rs_markdown (render_messages h clk k msgs)))
   \<and> convertChatToMarkdown h clk k None = (invalid_chat_document, [invalid_chat_warning], k)
   \<and> convertChatToMarkdown h clk k (Some \<lparr>chat_title = title, chat_messages = None\<rparr>)
     = (invalid_chat_document, [invalid_chat_warning], k)
   \<and> invalid_chat_document = ''<!-- Warning: No messages found or invalid format -->\<newline>''"
proof -
  have core: "rs_markdown (render_messages h clk k msgs)
                = rs_markdown (render_messages h clk k (filter renderable msgs))
              \<and> rs_lastDate (render_messages h clk k msgs)
                = rs_lastDate (render_messages h clk k (filter renderable msgs))
              \<and> rs_ticks (render_messages h clk k msgs)
                = rs_ticks (render_messages h clk k (filter renderable msgs))"
    unfolding render_messages_def by (rule erased_eq [OF foldl_skips])
  have console: "rs_console (render_messages h clk k msgs)
     = replicate (length (filter (\<lambda>mo. \<not> renderable mo) msgs)) skip_warning"
    by (simp add: render_messages_def foldl_console initial_state_def)
  have loop: "rs_markdown (render_messages h clk k msgs)
                = rs_markdown (render_messages h clk k (filter renderable msgs))
     \<and> rs_ticks (render_messages h clk k msgs)
                = rs_ticks (render_messages h clk k (filter renderable msgs))
     \<and> rs_console (render_messages h clk k msgs)
     = replicate (length (filter (\<lambda>mo. \<not> renderable mo) msgs)) skip_warning
     \<and> fst (convertChatToMarkdown h clk k (Some \<lparr>chat_title = title, chat_messages = Some msgs\<rparr>))
     = fst (convertChatToMarkdown h clk k
              (Some \<lparr>chat_title = title, chat_messages = Some (filter renderable msgs)\<rparr>))
     \<and> fst (convertChatToMarkdown h clk k (Some \<lparr>chat_title = title, chat_messages = Some msgs\<rparr>))
     = concat (map chunk_text (rs_markdown (render_messages h clk k msgs)))
     \<and> convertChatToMarkdown h clk k None = (invalid_chat_document, [invalid_chat_warning], k)
     \<and> convertChatToMarkdown h clk k (Some \<lparr>chat_title = title, chat_messages = None\<rparr>)
     = (invalid_chat_document, [invalid_chat_warning], k)
     \<and> invalid_chat_document = ''<!-- Warning: No messages found or invalid format -->\<newline>''"
    using core console
    by (simp add: convertChatToMarkdown_def Let_def markdown_text_def invalid_chat_document_def)
  show ?thesis
    using loop render_skip [of mo h clk st] render_message_text [of msg r h clk st]
    by blast
qed

subsection \<open>Date headings\<close>

lemma date_headings_append [simp]:
  "date_headings (xs @ ys) = date_headings xs @ date_headings ys"
  by (simp add: date_headings_def)

lemma date_headings_Nil: "date_headings [] = []"
  by (simp add: date_headings_def)

lemma date_headings_link_lines:
  "date_headings (link_lines LinkLine ls) = [] \<and> date_headings (link_lines WebLinkLine ls) = []"
  by (induction ls) (auto simp: link_lines_def date_headings_def split: option.splits)

lemma date_headings_body: "date_headings (message_body role time msg) = []"
  using date_headings_link_lines
  by (auto simp: message_body_def links_section_def web_links_section_def Let_def
        date_headings_def split: option.splits)

text \<open>A date is never the empty string, the initial value of the cursor.\<close>

lemma date_part_nonempty: "date_part h d \<noteq> []"
  by (simp add: date_part_def Let_def)

lemma message_datetime_nonempty: "fst (fst (message_datetime h clk k msg)) \<noteq> []"
  by (auto simp: message_datetime_def formatMessageDateTime_def Let_def date_part_nonempty
        split: prod.splits)

lemma message_dates_nonempty: "[] \<notin> set (message_dates h clk k msgs)"
proof (induction msgs arbitrary: k)
  case Nil
  then show ?case by simp
next
  case (Cons mo msgs)
  show ?case
    using Cons.IH message_datetime_nonempty [of h clk k]
    by (auto split: option.splits prod.splits) (metis fst_conv)
qed

text \<open>What one rendered message adds to the date headings.\<close>

lemma render_message_heading:
  "msg_role msg = Some r \<Longrightarrow>
   date_headings (rs_markdown (render_message h clk st (Some msg)))
     = date_headings (rs_markdown st)
       @ (if fst (fst (message_datetime h clk (rs_ticks st) msg)) \<noteq> rs_lastDate st
          then [fst (fst (message_datetime h clk (rs_ticks st) msg))] else [])"
proof -
  assume r: "msg_role msg = Some r"
  obtain date time k2 where dt: "message_datetime h clk (rs_ticks st) msg = ((date, time), k2)"
    by (metis prod.exhaust)
  have "date_headings [DateHeading date] = [date]"
    by (simp add: date_headings_def)
  moreover have "date_headings [Separator] = []"
    by (simp add: date_headings_def)
  ultimately show ?thesis
    by (simp add: render_message_def r dt date_headings_body date_headings_Nil)
qed

text \<open>
  The loop invariant: the headings appended from a state on are the dates of the
  messages with adjacent repetitions removed, the cursor counting as the date before
  the first message.
\<close>

lemma headings_from_state:
  "date_headings (rs_markdown (foldl (render_message h clk) st msgs))
     = date_headings (rs_markdown st)
       @ tl (remdups_adj (rs_lastDate st # message_dates h clk (rs_ticks st) msgs))"
proof (induction msgs arbitrary: st)
  case Nil
  then show ?case by simp
next
  case (Cons mo msgs)
  show ?case
  proof (cases "renderable mo")
    case False
    then have "message_dates h clk (rs_ticks st) (mo # msgs)
                 = message_dates h clk (rs_ticks st) msgs"
      by (auto simp: renderable_def split: option.splits)
    then show ?thesis using False by (simp add: render_skip Cons.IH)
  next
    case True
    then obtain msg r where mo: "mo = Some msg" and r: "msg_role msg = Some r"
      by (auto simp: renderable_def split: option.splits)
    obtain date time k2 where dt: "message_datetime h clk (rs_ticks st) msg = ((date, time), k2)"
      by (metis prod.exhaust)
    let ?st' = "render_message h clk st (Some msg)"
    have st': "rs_markdown ?st' = rs_markdown st
                 @ (if date \<noteq> rs_lastDate st then [DateHeading date] else [])
                 @ message_body (toUpperCase h r) time msg @ [Separator]"
        "rs_lastDate ?st' = date" "rs_ticks ?st' = k2"
      by (auto simp: render_message_def r dt)
    have hd: "date_headings (rs_markdown ?st')
            = date_headings (rs_markdown st) @ (if date \<noteq> rs_lastDate st then [date] else [])"
      by (simp add: st' date_headings_body) (simp add: date_headings_def)
    have cons: "remdups_adj (date # ds) = date # tl (remdups_adj (date # ds))" for ds
      by (cases ds) auto
    have "date_headings (rs_markdown (foldl (render_message h clk) ?st' msgs))
            = date_headings (rs_markdown ?st')
              @ tl (remdups_adj (date # message_dates h clk k2 msgs))"
      using Cons.IH [of ?st'] by (simp only: st')
    also have "\<dots> = date_headings (rs_markdown st)
              @ tl (remdups_adj (rs_lastDate st # date # message_dates h clk k2 msgs))"
      using cons [of "message_dates h clk k2 msgs"] by (simp add: hd)
    finally show ?thesis
      by (simp add: mo r dt)
  qed
qed

lemma one_block: "remdups_adj (x # replicate n x) = [x]"
  by (induction n) auto

lemma two_blocks:
  "a \<noteq> b \<Longrightarrow> remdups_adj (replicate (Suc m) a @ replicate (Suc n) b) = [a, b]"
  by (induction m) (auto simp: one_block)

text \<open>
  Claim C4, as the code has it. A rendered message appends the heading line
  \<open>## <date>\<close> and a blank line exactly when its date differs from the cursor, so
  the heading lines of the document are those of the dates of the rendered messages
  with adjacent repetitions removed. When the messages fall on two different dates
  and all messages of the first date come before all messages of the second, the
  document has exactly two heading lines, in that order.
\<close>

theorem date_headings_follow_cursor:
  "(msg_role msg = Some r
      \<longrightarrow> date_headings (rs_markdown (render_message h clk st (Some msg)))
          = date_headings (rs_markdown st)
            @ (if fst (fst (message_datetime h clk (rs_ticks st) msg)) \<noteq> rs_lastDate st
               then [fst (fst (message_datetime h clk (rs_ticks st) msg))] else [])
        \<and> markdown_text (rs_markdown (render_message h clk st (Some msg)))
          = markdown_text (rs_markdown st)
            @ (if fst (fst (message_datetime h clk (rs_ticks st) msg)) \<noteq> rs_lastDate st
               then ''## '' @ fst (fst (message_datetime h clk (rs_ticks st) msg))
                    @ ''\<newline>\<newline>''
               else [])
            @ markdown_text
                (message_body (toUpperCase h r)
                   (snd (fst (message_datetime h clk (rs_ticks st) msg))) msg)
            @ ''\<newline>'')
   \<and> date_headings (rs_markdown (render_messages h clk k msgs))
     = remdups_adj (message_dates h clk k msgs)
   \<and> map chunk_text (filter is_date_heading (rs_markdown (render_messages h clk k msgs)))
     = map (\<lambda>d. ''## '' @ d @ ''\<newline>\<newline>'') (remdups_adj (message_dates h clk k msgs))
   \<and> fst (convertChatToMarkdown h clk k (Some \<lparr>chat_title = title, chat_messages = Some msgs\<rparr>))
     = concat (map chunk_text (rs_markdown (render_messages h clk k msgs)))
   \<and> (message_dates h clk k msgs = replicate m a @ replicate n b \<and> a \<noteq> b \<and> 0 < m \<and> 0 < n
        \<longrightarrow> date_headings (rs_markdown (render_messages h clk k msgs)) = [a, b]
          \<and> map chunk_text (filter is_date_heading (rs_markdown (render_messages h clk k msgs)))
            = [''## '' @ a @ ''\<newline>\<newline>'', ''## '' @ b @ ''\<newline>\<newline>''])"
proof -
  have "tl (remdups_adj ([] # ds)) = remdups_adj ds" if "[] \<notin> set ds" for ds :: "string list"
    using that by (cases ds) auto
  then have main: "date_headings (rs_markdown (render_messages h clk k msgs))
     = remdups_adj (message_dates h clk k msgs)"
    by (simp add: render_messages_def headings_from_state initial_state_def
          message_dates_nonempty date_headings_Nil)
  have lines: "map chunk_text (filter is_date_heading (rs_markdown (render_messages h clk k msgs)))
     = map (\<lambda>d. ''## '' @ d @ ''\<newline>\<newline>'') (remdups_adj (message_dates h clk k msgs))"
    by (simp only: heading_lines main)
  have doc: "fst (convertChatToMarkdown h clk k
                    (Some \<lparr>chat_title = title, chat_messages = Some msgs\<rparr>))
     = concat (map chunk_text (rs_markdown (render_messages h clk k msgs)))"
    by (simp add: convertChatToMarkdown_def Let_def markdown_text_def)
  have blocks: "remdups_adj (replicate m a @ replicate n b) = [a, b]"
    if "a \<noteq> b" "0 < m" "0 < n"
  proof -
    obtain m' where m': "m = Suc m'" using \<open>0 < m\<close> by (cases m) auto
    obtain n' where n': "n = Suc n'" using \<open>0 < n\<close> by (cases n) auto
    show ?thesis unfolding m' n' by (rule two_blocks [OF that(1)])
  qed
  have two: "date_headings (rs_markdown (render_messages h clk k msgs)) = [a, b]
          \<and> map chunk_text (filter is_date_heading (rs_markdown (render_messages h clk k msgs)))
            = [''## '' @ a @ ''\<newline>\<newline>'', ''## '' @ b @ ''\<newline>\<newline>'']"
    if "message_dates h clk k msgs = replicate m a @ replicate n b" "a \<noteq> b" "0 < m" "0 < n"
    using blocks [OF that(2,3,4)] that(1) by (simp only: main lines) simp
  show ?thesis
    using main lines doc two render_message_heading [of msg r h clk st]
      render_message_text(2) [of msg r h clk st]
    by blast
qed

section \<open>Concrete runs\<close>

text \<open>Dates and times of the instants that occur in the example sessions.\<close>

lemma march_1015:
  "date_part utc_host (Some 1709288100000) = ''2024-03-01''"
  "hours_part utc_host (Some 1709288100000) = ''10''"
  "minutes_part utc_host (Some 1709288100000) = ''15''"
  by code_simp+

lemma march_1016:
  "date_part utc_host (Some 1709288160000) = ''2024-03-01''"
  "hours_part utc_host (Some 1709288160000) = ''10''"
  "minutes_part utc_host (Some 1709288160000) = ''16''"
  by code_simp+

lemma clock_reading_0:
  "date_part utc_host (Some 1710000000000) = ''2024-03-09''"
  "hours_part utc_host (Some 1710000000000) = ''16''"
  "minutes_part utc_host (Some 1710000000000) = ''00''"
  by code_simp+

lemma clock_reading_2: "date_part utc_host (Some 1710000000002) = ''2024-03-09''"
  by code_simp

lemma clock_reading_4: "date_part utc_host (Some 1710000000004) = ''2024-03-09''"
  by code_simp

lemma upper_System: "toUpperCase utc_host ''System'' = ''SYSTEM''"
  by (simp add: utc_host_def ascii_upper_def lower_letters_def upper_letters_def)

lemmas datetime_unfold = message_datetime_def getSafeTimestamp_def isValidTimestamp_def
  formatMessageDateTime_def example_clock_def time_clip_def plain_message_def Let_def

lemma clock_reading_times:
  "hours_part utc_host (Some 1710000000002) = ''16''"
  "minutes_part utc_host (Some 1710000000002) = ''00''"
  "hours_part utc_host (Some 1710000000004) = ''16''"
  "minutes_part utc_host (Some 1710000000004) = ''00''"
  by code_simp+

lemma upper_roles:
  "toUpperCase utc_host ''user'' = ''USER''"
  "toUpperCase utc_host ''assistant'' = ''ASSISTANT''"
  by (simp_all add: utc_host_def ascii_upper_def lower_letters_def upper_letters_def)

lemmas render_unfold = convertChatToMarkdown_def render_messages_def initial_state_def
  render_message_def message_body_def links_section_def web_links_section_def
  nonempty_array_def str_or_def markdown_text_def

lemma ordered_document:
  "convertChatToMarkdown utc_host example_clock 0
     (Some \<lparr>chat_title = ''Trip'', chat_messages = Some ordered_session\<rparr>)
   = (''## 2024-03-01\<newline>\<newline>### USER | 10:15\<newline>Where to go?\<newline>\<newline>### USER | 10:16\<newline>Thanks\<newline>\<newline>## 2024-03-09\<newline>\<newline>### ASSISTANT | 16:00\<newline>Try Kyoto.\<newline>\<newline>'',
      [], 6)"
  by (simp add: render_unfold ordered_session_def datetime_unfold march_1015 march_1016
        clock_reading_4 clock_reading_times upper_roles)

lemma interleaved_document:
  "convertChatToMarkdown utc_host example_clock 0
     (Some \<lparr>chat_title = ''Trip'', chat_messages = Some interleaved_session\<rparr>)
   = (''## 2024-03-01\<newline>\<newline>### USER | 10:15\<newline>Where to go?\<newline>\<newline>## 2024-03-09\<newline>\<newline>### ASSISTANT | 16:00\<newline>Try Kyoto.\<newline>\<newline>## 2024-03-01\<newline>\<newline>### USER | 10:16\<newline>Thanks\<newline>\<newline>'',
      [], 6)"
  by (simp add: render_unfold interleaved_session_def datetime_unfold march_1015 march_1016
        clock_reading_2 clock_reading_times upper_roles)

lemma patchy_document:
  "convertChatToMarkdown utc_host example_clock 0
     (Some \<lparr>chat_title = ''Trip'', chat_messages = Some patchy_session\<rparr>)
   = (''## 2024-03-01\<newline>\<newline>### USER | 10:15\<newline>Where to go?\<newline>\<newline>### ASSISTANT | 10:16\<newline>Try Kyoto.\<newline>\<newline>'',
      [skip_warning, skip_warning], 4)"
  by (simp add: render_unfold patchy_session_def roleless_example_def datetime_unfold
        march_1015 march_1016 upper_roles)

lemma linkless_document:
  "convertChatToMarkdown utc_host example_clock 0
     (Some \<lparr>chat_title = ''Trip'', chat_messages = Some [Some linkless_example]\<rparr>)
   = (''## 2024-03-01\<newline>\<newline>### USER | 10:15\<newline>See the docs\<newline>\<newline>{links}\<newline>\<newline>'',
      [], 2)"
  by (simp add: render_unfold linkless_example_def datetime_unfold link_lines_def
        march_1015 upper_roles)

lemma system_example_datetime:
  "message_datetime utc_host example_clock 0 system_example = ((''2024-03-01'', ''10:15''), 2)"
  by (simp add: datetime_unfold system_example_def march_1015)


text \<open>The witness of C10: three link entries, none with a url.\<close>

theorem links_marker_without_lines_witness:
  "msg_links linkless_example
     = Some [None, Some \<lparr>link_title = Some ''Docs'', link_url = None\<rparr>,
             Some \<lparr>link_title = None, link_url = Some []\<rparr>]
   \<and> list_all lacks_url [None, Some \<lparr>link_title = Some ''Docs'', link_url = None\<rparr>,
                          Some \<lparr>link_title = None, link_url = Some []\<rparr>]
   \<and> ''USER'' \<noteq> ''SYSTEM''
   \<and> message_body ''USER'' ''10:15'' linkless_example
     = [RoleHeading ''USER'' ''10:15'', Content ''See the docs'', LinksMarker]
   \<and> markdown_text (message_body ''USER'' ''10:15'' linkless_example)
     = ''### USER | 10:15\<newline>See the docs\<newline>\<newline>{links}\<newline>''
   \<and> msg_role linkless_example = Some ''user'' \<and> toUpperCase utc_host ''user'' \<noteq> ''SYSTEM''
   \<and> markdown_text (rs_markdown
         (render_message utc_host example_clock (initial_state 0) (Some linkless_example)))
     = ''## 2024-03-01\<newline>\<newline>### USER | 10:15\<newline>See the docs\<newline>\<newline>{links}\<newline>\<newline>''
   \<and> convertChatToMarkdown utc_host example_clock 0
       (Some \<lparr>chat_title = ''Trip'', chat_messages = Some [Some linkless_example]\<rparr>)
     = (''## 2024-03-01\<newline>\<newline>### USER | 10:15\<newline>See the docs\<newline>\<newline>{links}\<newline>\<newline>'',
        [], 2)"
proof -
  have b: "msg_links linkless_example
     = Some [None, Some \<lparr>link_title = Some ''Docs'', link_url = None\<rparr>,
             Some \<lparr>link_title = None, link_url = Some []\<rparr>]"
    by (simp add: linkless_example_def)
  have c: "[None, Some \<lparr>link_title = Some ''Docs'', link_url = None\<rparr>,
             Some \<lparr>link_title = None, link_url = Some []\<rparr>] \<noteq> []" by simp
  have d: "list_all lacks_url [None, Some \<lparr>link_title = Some ''Docs'', link_url = None\<rparr>,
                          Some \<lparr>link_title = None, link_url = Some []\<rparr>]"
    by (simp add: lacks_url_def truthy_str_def)
  note inst = links_marker_without_lines
    [OF b c d, where role = "''USER''" and time = "''10:15''" and r = "''user''"
       and h = utc_host and clk = example_clock and st = "initial_state 0"]
  have a: "''USER'' \<noteq> ''SYSTEM''" by simp
  have role: "msg_role linkless_example = Some ''user''"
    by (simp add: linkless_example_def)
  have up: "toUpperCase utc_host ''user'' \<noteq> ''SYSTEM''"
    by (simp add: upper_roles)
  have dt: "message_datetime utc_host example_clock 0 linkless_example
            = ((''2024-03-01'', ''10:15''), 2)"
    by (simp add: datetime_unfold linkless_example_def march_1015)
  have fields: "str_or (msg_content linkless_example) [] = ''See the docs''"
    "nonempty_array (msg_pictures linkless_example) = False"
    "nonempty_array (msg_files linkless_example) = False"
    "web_links_section linkless_example = []"
    by (simp_all add: linkless_example_def str_or_def nonempty_array_def web_links_section_def)
  have body: "message_body ''USER'' ''10:15'' linkless_example
     = [RoleHeading ''USER'' ''10:15'', Content ''See the docs'', LinksMarker]
     \<and> markdown_text (message_body ''USER'' ''10:15'' linkless_example)
     = ''### USER | 10:15\<newline>See the docs\<newline>\<newline>{links}\<newline>''"
    using mp [OF conjunct1 [OF conjunct2 [OF conjunct2 [OF inst]]] a]
    by (simp add: fields markdown_text_Cons)
  have doc: "markdown_text (rs_markdown
         (render_message utc_host example_clock (initial_state 0) (Some linkless_example)))
     = ''## 2024-03-01\<newline>\<newline>### USER | 10:15\<newline>See the docs\<newline>\<newline>{links}\<newline>\<newline>''"
    using mp [OF conjunct2 [OF conjunct2 [OF conjunct2 [OF inst]]] conjI [OF role up]] body
    by (simp add: dt initial_state_def upper_roles markdown_text_Cons)
  from a b d role up body doc linkless_document show ?thesis by blast
qed

text \<open>
  The witness of C8: of the four elements of the session the first and the third are
  skipped, with a warning each, and the other two are rendered.
\<close>

theorem invalid_messages_skipped_witness:
  "\<not> renderable None \<and> \<not> renderable (Some roleless_example)
   \<and> render_message utc_host example_clock (initial_state 0) None
     = (initial_state 0)\<lparr>rs_console := [skip_warning]\<rparr>
   \<and> msg_role (plain_message ''user'' (TsNum 1709288100000) ''Where to go?'') = Some ''user''
   \<and> markdown_text (rs_markdown (render_message utc_host example_clock (initial_state 0)
         (Some (plain_message ''user'' (TsNum 1709288100000) ''Where to go?''))))
     = ''## 2024-03-01\<newline>\<newline>### USER | 10:15\<newline>Where to go?\<newline>\<newline>''
   \<and> convertChatToMarkdown utc_host example_clock 0
       (Some \<lparr>chat_title = ''Trip'', chat_messages = Some patchy_session\<rparr>)
     = (''## 2024-03-01\<newline>\<newline>### USER | 10:15\<newline>Where to go?\<newline>\<newline>### ASSISTANT | 10:16\<newline>Try Kyoto.\<newline>\<newline>'',
        [skip_warning, skip_warning], 4)"
proof -
  note inst = invalid_messages_skipped
    [where mo = None and h = utc_host and clk = example_clock and st = "initial_state 0"
       and msg = "plain_message ''user'' (TsNum 1709288100000) ''Where to go?''"
       and r = "''user''" and k = 0 and msgs = patchy_session and title = "''Trip''"]
  have skip: "\<not> renderable None" "\<not> renderable (Some roleless_example)"
    by (simp_all add: renderable_def roleless_example_def)
  have role: "msg_role (plain_message ''user'' (TsNum 1709288100000) ''Where to go?'') = Some ''user''"
    by (simp add: plain_message_def)
  have dt: "message_datetime utc_host example_clock 0
              (plain_message ''user'' (TsNum 1709288100000) ''Where to go?'')
            = ((''2024-03-01'', ''10:15''), 2)"
    by (simp add: datetime_unfold march_1015)
  have body: "message_body ''USER'' ''10:15''
                (plain_message ''user'' (TsNum 1709288100000) ''Where to go?'')
              = [RoleHeading ''USER'' ''10:15'', Content ''Where to go?'']"
    by (simp add: message_body_def plain_message_def str_or_def nonempty_array_def
          links_section_def web_links_section_def)
  have a: "render_message utc_host example_clock (initial_state 0) None
     = (initial_state 0)\<lparr>rs_console := [skip_warning]\<rparr>"
    using mp [OF conjunct1 [OF inst] skip(1)] by (simp add: initial_state_def)
  have b: "markdown_text (rs_markdown (render_message utc_host example_clock (initial_state 0)
         (Some (plain_message ''user'' (TsNum 1709288100000) ''Where to go?''))))
     = ''## 2024-03-01\<newline>\<newline>### USER | 10:15\<newline>Where to go?\<newline>\<newline>''"
    using mp [OF conjunct1 [OF conjunct2 [OF inst]] role]
    by (simp add: dt initial_state_def upper_roles body markdown_text_Cons)
  from skip role a b patchy_document show ?thesis by simp
qed

text \<open>
  Claim C4 as it is stated fails. The second message of the session has no timestamp
  and gets the date of the conversion, the first and the third are of 2024-03-01: the
  messages fall on two different dates and the document has three date headings.
\<close>

lemma interleaved_dates:
  "message_dates utc_host example_clock 0 interleaved_session
     = [''2024-03-01'', ''2024-03-09'', ''2024-03-01'']"
  by (simp add: interleaved_session_def datetime_unfold march_1015 march_1016 clock_reading_2)

theorem two_dates_three_headings:
  "message_dates utc_host example_clock 0 interleaved_session
     = [''2024-03-01'', ''2024-03-09'', ''2024-03-01'']
   \<and> card (set (message_dates utc_host example_clock 0 interleaved_session)) = 2
   \<and> date_headings (rs_markdown (render_messages utc_host example_clock 0 interleaved_session))
     = [''2024-03-01'', ''2024-03-09'', ''2024-03-01'']
   \<and> length (date_headings
        (rs_markdown (render_messages utc_host example_clock 0 interleaved_session))) = 3
   \<and> map chunk_text (filter is_date_heading
          (rs_markdown (render_messages utc_host example_clock 0 interleaved_session)))
     = [''## 2024-03-01\<newline>\<newline>'', ''## 2024-03-09\<newline>\<newline>'',
        ''## 2024-03-01\<newline>\<newline>'']
   \<and> fst (convertChatToMarkdown utc_host example_clock 0
            (Some \<lparr>chat_title = ''Trip'', chat_messages = Some interleaved_session\<rparr>))
     = ''## 2024-03-01\<newline>\<newline>### USER | 10:15\<newline>Where to go?\<newline>\<newline>## 2024-03-09\<newline>\<newline>### ASSISTANT | 16:00\<newline>Try Kyoto.\<newline>\<newline>## 2024-03-01\<newline>\<newline>### USER | 10:16\<newline>Thanks\<newline>\<newline>''"
proof -
  have h: "date_headings (rs_markdown (render_messages utc_host example_clock 0 interleaved_session))
     = [''2024-03-01'', ''2024-03-09'', ''2024-03-01'']"
    by (simp add: render_messages_def headings_from_state initial_state_def interleaved_dates
          date_headings_Nil)
  have c: "card (set [''2024-03-01'', ''2024-03-09'', ''2024-03-01'']) = 2"
    by (simp add: card_insert_if)
  have l: "map chunk_text (filter is_date_heading
          (rs_markdown (render_messages utc_host example_clock 0 interleaved_session)))
     = [''## 2024-03-01\<newline>\<newline>'', ''## 2024-03-09\<newline>\<newline>'',
        ''## 2024-03-01\<newline>\<newline>'']"
    by (simp only: heading_lines h) simp
  show ?thesis
    using c l by (simp only: interleaved_dates h interleaved_document) simp
qed

text \<open>The witness of C4: the same messages with the two of 2024-03-01 first.\<close>

lemma ordered_dates:
  "message_dates utc_host example_clock 0 ordered_session
     = replicate 2 ''2024-03-01'' @ replicate 1 ''2024-03-09''"
  by (simp add: ordered_session_def datetime_unfold march_1015 march_1016 clock_reading_4
        numeral_2_eq_2)

theorem date_headings_follow_cursor_witness:
  "msg_role system_example = Some ''System''
   \<and> date_headings
        (rs_markdown (render_message utc_host example_clock (initial_state 0) (Some system_example)))
     = [''2024-03-01'']
   \<and> markdown_text
        (rs_markdown (render_message utc_host example_clock (initial_state 0) (Some system_example)))
     = ''## 2024-03-01\<newline>\<newline>```system\<newline>ls -la\<newline>```\<newline>\<newline>\<newline>''
   \<and> message_dates utc_host example_clock 0 ordered_session
     = replicate 2 ''2024-03-01'' @ replicate 1 ''2024-03-09''
   \<and> ''2024-03-01'' \<noteq> ''2024-03-09'' \<and> (0::nat) < 2 \<and> (0::nat) < 1
   \<and> date_headings (rs_markdown (render_messages utc_host example_clock 0 ordered_session))
     = [''2024-03-01'', ''2024-03-09'']
   \<and> map chunk_text (filter is_date_heading
          (rs_markdown (render_messages utc_host example_clock 0 ordered_session)))
     = [''## 2024-03-01\<newline>\<newline>'', ''## 2024-03-09\<newline>\<newline>'']
   \<and> fst (convertChatToMarkdown utc_host example_clock 0
            (Some \<lparr>chat_title = ''Trip'', chat_messages = Some ordered_session\<rparr>))
     = ''## 2024-03-01\<newline>\<newline>### USER | 10:15\<newline>Where to go?\<newline>\<newline>### USER | 10:16\<newline>Thanks\<newline>\<newline>## 2024-03-09\<newline>\<newline>### ASSISTANT | 16:00\<newline>Try Kyoto.\<newline>\<newline>''"
proof -
  note inst = date_headings_follow_cursor
    [where h = utc_host and clk = example_clock and k = 0 and msgs = ordered_session
       and m = 2 and a = "''2024-03-01''" and n = 1 and b = "''2024-03-09''"
       and msg = system_example and r = "''System''" and st = "initial_state 0"]
  have role: "msg_role system_example = Some ''System''"
    by (simp add: system_example_def)
  have body: "message_body ''SYSTEM'' ''10:15'' system_example = [SystemFence ''ls -la'']"
    by (simp add: message_body_def system_example_def str_or_def)
  have one: "date_headings
        (rs_markdown (render_message utc_host example_clock (initial_state 0) (Some system_example)))
     = [''2024-03-01'']
     \<and> markdown_text
        (rs_markdown (render_message utc_host example_clock (initial_state 0) (Some system_example)))
     = ''## 2024-03-01\<newline>\<newline>```system\<newline>ls -la\<newline>```\<newline>\<newline>\<newline>''"
    using mp [OF conjunct1 [OF inst] role]
    by (simp add: system_example_datetime initial_state_def date_headings_Nil upper_System body
          markdown_text_Cons)
  have two: "date_headings (rs_markdown (render_messages utc_host example_clock 0 ordered_session))
          = [''2024-03-01'', ''2024-03-09'']
     \<and> map chunk_text (filter is_date_heading
          (rs_markdown (render_messages utc_host example_clock 0 ordered_session)))
     = [''## 2024-03-01\<newline>\<newline>'', ''## 2024-03-09\<newline>\<newline>'']"
    using mp [OF conjunct2 [OF conjunct2 [OF conjunct2 [OF conjunct2 [OF inst]]]]]
    by (simp add: ordered_dates)
  from role one two ordered_dates ordered_document show ?thesis by simp
qed

section \<open>Properties of the Cherry Studio adapter\<close>

text \<open>
  Claim C7. An archive without an entry whose name ends in \<open>.json\<close> and which is
  not a directory gives the empty session list and a warning; so does a JSON value
  without a \<open>log\<close> array, read from an archive or from a file. Whatever the
  \<open>try\<close> block throws (a \<open>null\<close> payload among others) is caught: the result
  is the empty list and the error is written to the console.
\<close>

theorem cherry_no_json_or_no_log:
  "(endsWith filePath ''.zip''
      \<and> find (\<lambda>entry. endsWith (entryName entry) ''.json'' \<and> \<not> isDirectory entry) zipEntries = None
      \<longrightarrow> parseCherryStudio h clk k filePath (Archive zipEntries)
          = ([], [ConsoleLog (''[Stub] Parsing Cherry Studio file: '' @ filePath),
                  no_json_warning filePath], k))
   \<and> (endsWith filePath ''.zip''
      \<and> find (\<lambda>entry. endsWith (entryName entry) ''.json'' \<and> \<not> isDirectory entry) zipEntries
          = Some jsonEntry
      \<and> entryText jsonEntry = JsonObject jsonData \<and> cj_log jsonData = None
      \<longrightarrow> parseCherryStudio h clk k filePath (Archive zipEntries)
          = ([], [ConsoleLog (''[Stub] Parsing Cherry Studio file: '' @ filePath),
                  ConsoleLog (''   Extracting '' @ entryName jsonEntry @ '' from ZIP...''),
                  no_log_warning], k))
   \<and> (\<not> endsWith filePath ''.zip'' \<and> endsWith filePath ''.json'' \<and> cj_log jsonData = None
      \<longrightarrow> parseCherryStudio h clk k filePath (JsonText (JsonObject jsonData))
          = ([], [ConsoleLog (''[Stub] Parsing Cherry Studio file: '' @ filePath),
                  ConsoleLog (''   Reading direct JSON: '' @ filePath),
                  no_log_warning], k))
   \<and> (fst (parse_try h clk k filePath file) = Inl err
      \<longrightarrow> fst (parseCherryStudio h clk k filePath file) = []
          \<and> parse_error_event filePath \<in> set (fst (snd (parseCherryStudio h clk k filePath file))))"
  by (auto simp: parseCherryStudio_def parse_try_def sessions_of_payload_def
        split: prod.splits sum.splits)

theorem cherry_no_json_or_no_log_witness:
  "endsWith ''input_cherry/trip.zip'' ''.zip''
   \<and> find (\<lambda>entry. endsWith (entryName entry) ''.json'' \<and> \<not> isDirectory entry)
        archive_without_json = None
   \<and> parseCherryStudio utc_host example_clock 0 ''input_cherry/trip.zip''
        (Archive archive_without_json)
     = ([], [ConsoleLog ''[Stub] Parsing Cherry Studio file: input_cherry/trip.zip'',
             ConsoleWarn ''   Warning: No JSON file found in ZIP: input_cherry/trip.zip''], 0)
   \<and> find (\<lambda>entry. endsWith (entryName entry) ''.json'' \<and> \<not> isDirectory entry)
        [\<lparr>entryName = ''data.json'', isDirectory = False,
          entryText = JsonObject payload_without_log\<rparr>]
     = Some \<lparr>entryName = ''data.json'', isDirectory = False,
             entryText = JsonObject payload_without_log\<rparr>
   \<and> cj_log payload_without_log = None
   \<and> parseCherryStudio utc_host example_clock 0 ''input_cherry/trip.zip''
        (Archive [\<lparr>entryName = ''data.json'', isDirectory = False,
                   entryText = JsonObject payload_without_log\<rparr>])
     = ([], [ConsoleLog ''[Stub] Parsing Cherry Studio file: input_cherry/trip.zip'',
             ConsoleLog ''   Extracting data.json from ZIP...'', no_log_warning], 0)
   \<and> \<not> endsWith ''input_cherry/trip.json'' ''.zip''
   \<and> endsWith ''input_cherry/trip.json'' ''.json''
   \<and> parseCherryStudio utc_host example_clock 0 ''input_cherry/trip.json''
        (JsonText (JsonObject payload_without_log))
     = ([], [ConsoleLog ''[Stub] Parsing Cherry Studio file: input_cherry/trip.json'',
             ConsoleLog ''   Reading direct JSON: input_cherry/trip.json'', no_log_warning], 0)
   \<and> fst (parse_try utc_host example_clock 0 ''input_cherry/trip.json'' (JsonText JsonNull))
     = Inl TypeError
   \<and> fst (parseCherryStudio utc_host example_clock 0 ''input_cherry/trip.json''
            (JsonText JsonNull)) = []"
proof -
  have zip: "endsWith ''input_cherry/trip.zip'' ''.zip''"
    and json: "\<not> endsWith ''input_cherry/trip.json'' ''.zip''"
              "endsWith ''input_cherry/trip.json'' ''.json''"
    by (simp_all add: endsWith_def)
  have none: "find (\<lambda>entry. endsWith (entryName entry) ''.json'' \<and> \<not> isDirectory entry)
        archive_without_json = None"
    by (simp add: archive_without_json_def endsWith_def)
  have some: "find (\<lambda>entry. endsWith (entryName entry) ''.json'' \<and> \<not> isDirectory entry)
        [\<lparr>entryName = ''data.json'', isDirectory = False,
          entryText = JsonObject payload_without_log\<rparr>]
     = Some \<lparr>entryName = ''data.json'', isDirectory = False,
             entryText = JsonObject payload_without_log\<rparr>"
    by (simp add: endsWith_def)
  have nolog: "cj_log payload_without_log = None"
    by (simp add: payload_without_log_def)
  have null: "fst (parse_try utc_host example_clock 0 ''input_cherry/trip.json'' (JsonText JsonNull))
     = Inl TypeError"
    by (simp add: parse_try_def json sessions_of_payload_def)
  note thm1 = cherry_no_json_or_no_log
    [of "''input_cherry/trip.zip''" archive_without_json utc_host example_clock 0]
  note thm2 = cherry_no_json_or_no_log
    [of "''input_cherry/trip.zip''"
        "[\<lparr>entryName = ''data.json'', isDirectory = False,
           entryText = JsonObject payload_without_log\<rparr>]"
        utc_host example_clock 0
        "\<lparr>entryName = ''data.json'', isDirectory = False,
           entryText = JsonObject payload_without_log\<rparr>" payload_without_log]
  note thm3 = cherry_no_json_or_no_log
    [of "''input_cherry/trip.json''" "[]" utc_host example_clock 0 undefined payload_without_log
        "JsonText JsonNull" TypeError]
  have r1: "parseCherryStudio utc_host example_clock 0 ''input_cherry/trip.zip''
        (Archive archive_without_json)
     = ([], [ConsoleLog ''[Stub] Parsing Cherry Studio file: input_cherry/trip.zip'',
             ConsoleWarn ''   Warning: No JSON file found in ZIP: input_cherry/trip.zip''], 0)"
    using thm1 zip none by (simp add: no_json_warning_def)
  have r2: "parseCherryStudio utc_host example_clock 0 ''input_cherry/trip.zip''
        (Archive [\<lparr>entryName = ''data.json'', isDirectory = False,
                   entryText = JsonObject payload_without_log\<rparr>])
     = ([], [ConsoleLog ''[Stub] Parsing Cherry Studio file: input_cherry/trip.zip'',
             ConsoleLog ''   Extracting data.json from ZIP...'', no_log_warning], 0)"
    using thm2 zip some nolog by simp
  have r3: "parseCherryStudio utc_host example_clock 0 ''input_cherry/trip.json''
        (JsonText (JsonObject payload_without_log))
     = ([], [ConsoleLog ''[Stub] Parsing Cherry Studio file: input_cherry/trip.json'',
             ConsoleLog ''   Reading direct JSON: input_cherry/trip.json'', no_log_warning], 0)"
    using thm3 json nolog by simp
  have r4: "fst (parseCherryStudio utc_host example_clock 0 ''input_cherry/trip.json''
            (JsonText JsonNull)) = []"
    using thm3 null by simp
  show ?thesis
    using zip json none some nolog null r1 r2 r3 r4 by (simp only: simp_thms)
qed

text \<open>What an entry becomes when its timestamp is absent or parses.\<close>

lemma entry_message_fields:
  "entry_message h clk k (Some e) = (Inr m, k')
   \<Longrightarrow> msg_role m = Some (entry_role_name h e) \<and> msg_content m = Some (str_or (entry_content e) [])"
  by (auto simp: entry_message_def cherry_message_def Let_def split: if_splits option.splits)

lemma entry_message_timestamp:
  "entry_message h clk k (Some e) = (Inr m, k')
   \<Longrightarrow> msg_timestamp m
         = TsStr (toISOString h (if truthy_ts (entry_timestamp e)
                                  then the (toTime h (entry_timestamp e)) else clk k))"
  by (auto simp: entry_message_def cherry_message_def Let_def split: if_splits option.splits)

lemma entry_message_invalid_timestamp:
  "truthy_ts (entry_timestamp e) \<Longrightarrow> toTime h (entry_timestamp e) = None
   \<Longrightarrow> entry_message h clk k (Some e) = (Inl RangeError, k)"
  by (simp add: entry_message_def Let_def)

lemma map_entries_invalid_timestamp:
  "Some e \<in> set entries \<Longrightarrow> truthy_ts (entry_timestamp e) \<Longrightarrow> toTime h (entry_timestamp e) = None
   \<Longrightarrow> \<exists>err. fst (map_entries h clk k entries) = Inl err"
proof (induction entries arbitrary: k)
  case Nil
  then show ?case by simp
next
  case (Cons x entries)
  show ?case
  proof (cases "x = Some e")
    case True
    then show ?thesis using Cons.prems by (simp add: entry_message_invalid_timestamp)
  next
    case False
    then have "Some e \<in> set entries" using Cons.prems by simp
    then have "\<exists>err. fst (map_entries h clk k1 entries) = Inl err" for k1
      using Cons.IH Cons.prems by blast
    then show ?thesis
      by (auto split: prod.splits sum.splits) (metis fst_conv sum.simps(4) Inl_Inr_False)
  qed
qed

text \<open>
  When every entry is an object whose timestamp is absent or parses, the log becomes
  one message for each entry, with the role and the content of the entry.
\<close>

lemma map_entries_ok:
  "list_all (\<lambda>eo. case eo of None \<Rightarrow> False
               | Some e \<Rightarrow> truthy_ts (entry_timestamp e) \<longrightarrow> toTime h (entry_timestamp e) \<noteq> None) entries
   \<Longrightarrow> \<exists>ms k'. map_entries h clk k entries = (Inr ms, k')
        \<and> list_all2 (\<lambda>eo m. \<exists>e. eo = Some e \<and> msg_role m = Some (entry_role_name h e)
                          \<and> msg_content m = Some (str_or (entry_content e) [])) entries ms"
proof (induction entries arbitrary: k)
  case Nil
  then show ?case by simp
next
  case (Cons eo entries)
  then obtain e where eo: "eo = Some e"
    and ok: "truthy_ts (entry_timestamp e) \<longrightarrow> toTime h (entry_timestamp e) \<noteq> None"
    by (auto split: option.splits)
  obtain m k1 where m: "entry_message h clk k (Some e) = (Inr m, k1)"
    using ok by (cases "truthy_ts (entry_timestamp e)") (auto simp: entry_message_def Let_def)
  from Cons obtain ms k2 where ms: "map_entries h clk k1 entries = (Inr ms, k2)"
    and all: "list_all2 (\<lambda>eo m. \<exists>e. eo = Some e \<and> msg_role m = Some (entry_role_name h e)
                          \<and> msg_content m = Some (str_or (entry_content e) [])) entries ms"
    by fastforce
  show ?case
    using entry_message_fields [OF m] all by (simp add: eo m ms)
qed

text \<open>
  Claim C6 says that every entry of the log becomes a message with its timestamp
  parsed and normalized. \<open>toISOString\<close> throws on an Invalid Date, so one entry
  whose timestamp is a string that is no date makes the adapter return no session at
  all: the role and the content of every entry of the file are lost.
\<close>

theorem cherry_unparsable_timestamp_drops_session:
  "parseCherryStudio utc_host example_clock 0 ''input_cherry/trip.json''
     (JsonText (JsonObject bad_timestamp_log))
   = ([], [ConsoleLog ''[Stub] Parsing Cherry Studio file: input_cherry/trip.json'',
           ConsoleLog ''   Reading direct JSON: input_cherry/trip.json'',
           ConsoleError ''   Error parsing Cherry Studio file input_cherry/trip.json:''], 0)"
  by (simp add: parseCherryStudio_def parse_try_def endsWith_def sessions_of_payload_def
        bad_timestamp_log_def entry_message_def utc_host_def time_clip_def Let_def
        parse_error_event_def)

section \<open>Properties of the file names\<close>

subsection \<open>The loop of main builds the name the specification describes\<close>

lemma collapse_consecutive_underscore:
  "collapse_consecutive (CHR ''_'' # cs)
     = CHR ''_'' # collapse_consecutive (dropWhile (\<lambda>d. d = CHR ''_'') cs)"
  by (induction cs) auto

lemma collapse_consecutive_other:
  "c \<noteq> CHR ''_'' \<Longrightarrow> collapse_consecutive (c # cs) = c # collapse_consecutive cs"
  by (cases cs) auto

lemma collapse_underscores_spec: "collapse_underscores s = collapse_consecutive s"
  by (induction s rule: collapse_underscores.induct)
     (simp_all add: collapse_consecutive_underscore collapse_consecutive_other)

lemma name_char_spec:
  "name_char c = (c \<in> set lower_letters \<or> c \<in> set upper_letters
                    \<or> c \<in> set digit_chars \<or> c = CHR ''-'' \<or> c = CHR ''_'')"
  unfolding name_char_def set_append by auto

lemma sanitizeFileName_spec: "sanitizeFileName_default title = spec_sanitizedTitle title"
proof -
  define t where "t = trim_underscores (collapse_underscores (replace_invalid title))"
  have l: "sanitizeFileName_default title = (if take 50 t = [] then ''unnamed_chat'' else take 50 t)"
    unfolding sanitizeFileName_default_def sanitizeFileName_def t_def [symmetric] Let_def
      truncate_50 placeholder_name_def ..
  have t: "t = rev (dropWhile (\<lambda>c. c = CHR ''_'')
                      (rev (dropWhile (\<lambda>c. c = CHR ''_'') (collapse_consecutive
    (map (\<lambda>c. if c \<in> set lower_letters \<or> c \<in> set upper_letters
                                  \<or> c \<in> set digit_chars \<or> c = CHR ''-'' \<or> c = CHR ''_''
                               then c else CHR ''_'') title)))))"
    unfolding t_def trim_underscores_def collapse_underscores_spec replace_invalid_def
      name_char_spec ..
  have r: "spec_sanitizedTitle title = (if take 50 t = [] then ''unnamed_chat'' else take 50 t)"
    unfolding spec_sanitizedTitle_def Let_def t [symmetric] ..
  show ?thesis by (simp only: l r)
qed

lemma main_fileName_spec:
  "main_fileName h clk k cs
     = (fst (main_datePrefix h clk k cs) @ ''_'' @ spec_sanitizedTitle (chatName cs) @ ''.md'',
        snd (main_datePrefix h clk k cs))"
  by (simp add: main_fileName_def sanitizeFileName_spec split: prod.splits)

lemma main_datePrefix_no_messages:
  assumes "cs_messages cs = []" and "clk (Suc k) \<noteq> 0"
    and "\<bar>clk (Suc k)\<bar> \<le> 8640000000000000" and "clk (Suc k) \<le> clk (Suc (Suc k))"
  shows "main_datePrefix h clk k cs
           = (date_part h (Some (clk (Suc k))) @ ''_'' @ hours_part h (Some (clk (Suc k)))
              @ minutes_part h (Some (clk (Suc k))), Suc (Suc (Suc k)))"
  using assms
  by (simp add: main_datePrefix_def first_timestamp_def getSafeTimestamp_def
        isValidTimestamp_def formatDate_def time_clip_def Let_def)

lemma main_datePrefix_first_message:
  assumes "cs_messages cs = Some m # rest" and "truthy_ts (msg_timestamp m)"
    and "toTime h (msg_timestamp m) = Some d" and "d \<le> clk k" and "d \<le> clk (Suc k)"
  shows "main_datePrefix h clk k cs
           = (date_part h (Some d) @ ''_'' @ hours_part h (Some d) @ minutes_part h (Some d),
              Suc (Suc k))"
  using assms
  by (simp add: main_datePrefix_def first_timestamp_def getSafeTimestamp_def
        isValidTimestamp_def formatDate_def Let_def)

subsection \<open>saveChatsToMarkdown does not\<close>

text \<open>
  Claim C2 says that the name component is the title with every character outside
  letters, digits, hyphen and underscore replaced, underscores collapsed and
  trimmed. \<open>saveChatsToMarkdown\<close> of convert.js does not call
  \<open>sanitizeFileName\<close>: it replaces the runs of \<open><>:"/\|?*.\<close> and white space
  only and trims nothing. For the title \<open>What is 2+2?\<close> it keeps the \<open>+\<close> and
  ends the name with an underscore.
\<close>

theorem saveChatsToMarkdown_unsanitized:
  "saveChatsToMarkdown_fileName utc_host example_clock 0
     \<lparr>chat_title = ''What is 2+2?'', chat_messages = Some []\<rparr>
     = (Inr ''2024-03-09_1600_What_is_2+2_.md'', 1)
   \<and> sanitizeFileName_default ''What is 2+2?'' = ''What_is_2_2''"
proof -
  have "safeTitle ''What is 2+2?'' = ''What_is_2+2_''"
    by (simp add: safeTitle_def unsafe_title_char_def)
  moreover have "sanitizeFileName_default ''What is 2+2?'' = ''What_is_2_2''"
    by code_simp
  ultimately show ?thesis
    by (simp add: saveChatsToMarkdown_fileName_def example_clock_def time_clip_def clock_reading_0)
qed

end
